theory Spec2Isabelle
  imports Complex_Main "HOL-Library.Sublist"
begin

section \<open>Python values and built-ins used by the toolbox\<close>

text \<open>
  Exceptions are values: every function that can raise returns \<open>error + 'a\<close>, with
  \<open>Inl\<close> carrying the exception class that the Python code would raise. A raise aborts
  the running build, so the state reached at the raise is not returned.
  Python integers are unbounded and are modelled by \<open>int\<close> (\<open>nat\<close> for loop counters
  that come from \<open>range\<close> and \<open>enumerate\<close>); floating point numbers are idealised
  as \<open>real\<close>.
\<close>

datatype error =
    IndexError
  | ValueError
  | KeyError
  | AttributeError
  | ZeroDivisionError
  | NotImplementedError
  | RuntimeWarning
  | AssertionError
  | TypeError
  | FileNotFoundError
  | UnpicklingError
  | ScriptRaised

text \<open>Sequencing of fallible steps: the first raise wins.\<close>

definition bind_err :: "error + 'a \<Rightarrow> ('a \<Rightarrow> error + 'b) \<Rightarrow> error + 'b" where
  "bind_err m f = (case m of Inl e \<Rightarrow> Inl e | Inr x \<Rightarrow> f x)"

subsection \<open>\<open>str\<close> and \<open>int\<close> on integers\<close>

definition digit_char :: "nat \<Rightarrow> char" where
  "digit_char d = ''0123456789'' ! d"

definition digit_of_char :: "char \<Rightarrow> nat option" where
  "digit_of_char =
     map_of [(CHR ''0'', 0), (CHR ''1'', 1), (CHR ''2'', 2), (CHR ''3'', 3), (CHR ''4'', 4),
             (CHR ''5'', 5), (CHR ''6'', 6), (CHR ''7'', 7), (CHR ''8'', 8), (CHR ''9'', 9)]"

text \<open>\<open>str(n)\<close> for a non-negative integer: its decimal digits, most significant first.\<close>

function str_nat :: "nat \<Rightarrow> string" where
  "str_nat n = (if n < 10 then [digit_char n] else str_nat (n div 10) @ [digit_char (n mod 10)])"
  by pat_completeness auto
termination
  by (relation "measure id") auto

declare str_nat.simps [simp del]

text \<open>\<open>str(i)\<close> for any integer: a minus sign for the negative ones.\<close>

definition py_str :: "int \<Rightarrow> string" where
  "py_str i = (if i < 0 then CHR ''-'' # str_nat (nat (- i)) else str_nat (nat i))"

text \<open>
  \<open>int(s)\<close> on a string: surrounding ASCII white space is stripped, one optional sign
  is read, and the rest has to be a non-empty run of decimal digits; anything else raises
  \<open>ValueError\<close>. (Python also accepts single underscores between digits and non-ASCII
  digits and white space; the strings reaching \<open>int\<close> below are pieces of a label that
  was split at \<open>_\<close>, and labels are ASCII.)
\<close>

definition is_space :: "char \<Rightarrow> bool" where
  "is_space c = (c = CHR '' '' \<or> c = CHR 0x09 \<or> c = CHR 0x0A \<or> c = CHR 0x0B
                 \<or> c = CHR 0x0C \<or> c = CHR 0x0D)"

definition py_strip :: "string \<Rightarrow> string" where
  "py_strip s = rev (dropWhile is_space (rev (dropWhile is_space s)))"

fun parse_digits :: "nat \<Rightarrow> string \<Rightarrow> nat option" where
  "parse_digits acc [] = Some acc"
| "parse_digits acc (c # cs) =
     (case digit_of_char c of None \<Rightarrow> None | Some d \<Rightarrow> parse_digits (10 * acc + d) cs)"

definition py_int :: "string \<Rightarrow> error + int" where
  "py_int s =
     (case py_strip s of
        [] \<Rightarrow> Inl ValueError
      | c # cs \<Rightarrow>
          if c = CHR ''-'' then
            (if cs = [] then Inl ValueError
             else case parse_digits 0 cs of None \<Rightarrow> Inl ValueError | Some n \<Rightarrow> Inr (- int n))
          else if c = CHR ''+'' then
            (if cs = [] then Inl ValueError
             else case parse_digits 0 cs of None \<Rightarrow> Inl ValueError | Some n \<Rightarrow> Inr (int n))
          else (case parse_digits 0 (c # cs) of None \<Rightarrow> Inl ValueError | Some n \<Rightarrow> Inr (int n)))"

subsection \<open>\<open>str.split\<close> with a one-character separator\<close>

text \<open>
  \<open>s.split(sep)\<close> cuts at every occurrence of the separator and always returns at least
  one piece.
\<close>

fun split_on :: "char \<Rightarrow> string \<Rightarrow> string list" where
  "split_on sep [] = [[]]"
| "split_on sep (c # cs) =
     (if c = sep then [] # split_on sep cs
      else (c # hd (split_on sep cs)) # tl (split_on sep cs))"

text \<open>The list comprehension \<open>[int(i) for i in pieces]\<close>: the first failing piece raises.\<close>

fun int_all :: "string list \<Rightarrow> error + int list" where
  "int_all [] = Inr []"
| "int_all (p # ps) =
     (case py_int p of
        Inl e \<Rightarrow> Inl e
      | Inr i \<Rightarrow> (case int_all ps of Inl e \<Rightarrow> Inl e | Inr is \<Rightarrow> Inr (i # is)))"

section \<open>Layer labels\<close>

subsection \<open>The label the extractor generates (\<open>caffe_input_lib.extract\<close>, lines 145 to 153)\<close>

text \<open>
  \<open>output_shape\<close> is the whole shape, batch dimension first. A shape of length two gives
  the suffix \<open>_{}\<close> of its entry 1; any other shape is formatted with its entries 1, 2
  and 3, which raises \<open>IndexError\<close> when it has fewer than four. The index is written with
  \<open>str\<close>, with one \<open>0\<close> in front when it is at most 9.
\<close>

definition shape_string :: "int list \<Rightarrow> error + string" where
  "shape_string output_shape =
     (if length output_shape = 2 then Inr (''_'' @ py_str (output_shape ! 1))
      else if length output_shape < 4 then Inl IndexError
      else Inr (''_'' @ py_str (output_shape ! 1) @ ''x'' @ py_str (output_shape ! 2)
                 @ ''x'' @ py_str (output_shape ! 3)))"

definition num_str :: "nat \<Rightarrow> string" where
  "num_str layer_num = (if layer_num > 9 then str_nat layer_num else ''0'' @ str_nat layer_num)"

definition make_label :: "nat \<Rightarrow> string \<Rightarrow> int list \<Rightarrow> error + string" where
  "make_label layer_num layer_type output_shape =
     (case shape_string output_shape of
        Inl e \<Rightarrow> Inl e
      | Inr s \<Rightarrow> Inr (num_str layer_num @ layer_type @ s))"

subsection \<open>\<open>get_shape_from_label\<close> (\<open>pyNN_target_sim\<close>, line 698)\<close>

definition get_shape_from_label :: "string \<Rightarrow> error + int list" where
  "get_shape_from_label label =
     (let pieces = split_on CHR ''_'' label
      in if length pieces < 2 then Inl IndexError
         else int_all (split_on CHR ''x'' (pieces ! 1)))"

subsection \<open>The label as the specification words it\<close>

text \<open>
  The specification describes the label as the two-digit zero-padded index, the kind
  name, an underscore, and the non-batch dimensions joined by \<open>x\<close>.
\<close>

definition two_digits :: "nat \<Rightarrow> string" where
  "two_digits n = [digit_char (n div 10), digit_char (n mod 10)]"

fun join_x :: "string list \<Rightarrow> string" where
  "join_x [] = []"
| "join_x [s] = s"
| "join_x (s # t # ts) = s @ ''x'' @ join_x (t # ts)"

definition spec_label :: "nat \<Rightarrow> string \<Rightarrow> int list \<Rightarrow> string" where
  "spec_label index kind dims = two_digits index @ kind @ ''_'' @ join_x (map py_str dims)"


section \<open>The Caffe model extractor (\<open>caffe_input_lib.extract\<close>)\<close>

subsection \<open>The native network description\<close>

text \<open>
  The extractor reads a protocol buffer (\<open>model_protobuf\<close>) and a loaded network
  (\<open>model\<close>). Arrays are values of an arbitrary type \<open>'a\<close>: the extractor only moves them
  around and hands them to \<open>absorb_bn\<close>.
\<close>

record convolution_param =
  kernel_w :: int
  kernel_h :: int
  kernel_size :: "int list"
  pad_w :: int
  pad_h :: int
  num_output :: int

record pooling_param =
  pool_kernel_w :: int
  pool_kernel_h :: int
  pool_kernel_size :: int
  pool_pad_w :: int
  pool_pad_h :: int
  pool_pad :: int
  stride_w :: int
  stride_h :: int
  stride :: int

text \<open>One entry of \<open>model_protobuf.layer\<close>.\<close>

record proto_layer =
  proto_type :: string
  proto_name :: string
  conv_param :: convolution_param
  pool_param :: pooling_param

text \<open>
  One entry of \<open>model.layers\<close>: its \<open>type\<close>, the \<open>data\<close> of its \<open>blobs\<close> and its
  \<open>epsilon\<close> attribute (\<open>None\<close> when the object has no such attribute).
\<close>

record 'a net_layer =
  net_type :: string
  net_blobs :: "'a list"
  net_epsilon :: "'a option"

record 'a caffe_net =
  blobs :: "string \<rightharpoonup> int list"
  params :: "string \<rightharpoonup> 'a list"
  net_layers :: "'a net_layer list"

text \<open>The dictionary \<open>attributes\<close> built for one layer; an absent key is \<open>None\<close>.\<close>

record 'a attributes =
  attr_layer_num :: nat
  attr_layer_type :: string
  attr_output_shape :: "int list"
  attr_label :: string
  attr_activation :: "string option"
  attr_weights :: "'a list option"
  attr_input_shape :: "int list option"
  attr_nb_filter :: "int option"
  attr_nb_col :: "int option"
  attr_nb_row :: "int option"
  attr_border_mode :: "string option"
  attr_pool_size :: "int list option"
  attr_strides :: "int list option"
  attr_get_activ :: bool

text \<open>Indexing a Python list with a non-negative index.\<close>

definition py_index :: "'b list \<Rightarrow> nat \<Rightarrow> error + 'b" where
  "py_index xs i = (if i < length xs then Inr (xs ! i) else Inl IndexError)"

text \<open>\<open>xs[-1]\<close>.\<close>

definition py_last :: "'b list \<Rightarrow> error + 'b" where
  "py_last xs = (if xs = [] then Inl IndexError else Inr (last xs))"

text \<open>\<open>d[k]\<close> on a dictionary.\<close>

definition py_lookup :: "('k \<rightharpoonup> 'v) \<Rightarrow> 'k \<Rightarrow> error + 'v" where
  "py_lookup d k = (case d k of None \<Rightarrow> Inl KeyError | Some v \<Rightarrow> Inr v)"

subsection \<open>Layer type names (lines 116 to 133)\<close>

text \<open>
  The first \<open>if\<close>/\<open>elif\<close> chain assigns the standard names; the second statement is an
  \<open>if\<close> of its own, whose \<open>else\<close> branch assigns the native name again. \<open>None\<close> is
  the \<open>continue\<close> of a \<open>Data\<close> layer. \<open>pool_method\<close> is the name of the first value of
  the protocol buffer's \<open>PoolMethod\<close> enumeration.
\<close>

definition standard_name :: "string \<Rightarrow> string \<Rightarrow> string option" where
  "standard_name pool_method name =
     (if name = ''InnerProduct'' then Some ''Dense''
      else if name = ''Convolution'' then Some ''Convolution2D''
      else if name = ''Pooling'' then
        (if pool_method = ''MAX'' then Some ''MaxPooling2D'' else Some ''AveragePooling2D'')
      else None)"

definition layer_type_of :: "string \<Rightarrow> string \<Rightarrow> string option" where
  "layer_type_of pool_method name =
     (let first_chain = standard_name pool_method name
      in if name = ''ReLU'' \<or> name = ''Softmax'' then Some ''Activation''
         else if name = ''Data'' then None
         else Some name)"

subsection \<open>Weights and biases of an affine layer (lines 165 to 175)\<close>

text \<open>
  \<open>absorb_bn\<close> is imported from \<open>snntoolbox.model_libs.common\<close> and is a parameter here.
  The list \<open>weights\<close> is built from the first two blobs of the next layer; the call then
  reads its entries 0 to 3 and the next layer's \<open>epsilon\<close>, in this order, before
  \<open>absorb_bn\<close> runs.
\<close>

definition affine_weights ::
  "('a \<Rightarrow> 'a \<Rightarrow> 'a \<Rightarrow> 'a \<Rightarrow> 'a \<Rightarrow> 'a \<Rightarrow> 'a \<Rightarrow> 'a list) \<Rightarrow>
   'a caffe_net \<Rightarrow> string \<Rightarrow> 'a net_layer option \<Rightarrow> error + 'a list" where
  "affine_weights absorb_bn model layer_key next_layer =
     bind_err (py_lookup (params model) layer_key) (\<lambda>ps.
     bind_err (py_index ps 0) (\<lambda>w.
     bind_err (py_index ps 1) (\<lambda>b.
       let wb = [w, b] in
       (case next_layer of
          None \<Rightarrow> Inr wb
        | Some nl \<Rightarrow>
            if net_type nl = ''BatchNormalization'' then
              bind_err (py_index (net_blobs nl) 0) (\<lambda>b0.
              bind_err (py_index (net_blobs nl) 1) (\<lambda>b1.
                let weights = [b0, b1] in
                bind_err (py_index wb 0) (\<lambda>a0.
                bind_err (py_index wb 1) (\<lambda>a1.
                bind_err (py_index weights 0) (\<lambda>a2.
                bind_err (py_index weights 1) (\<lambda>a3.
                bind_err (py_index weights 2) (\<lambda>a4.
                bind_err (py_index weights 3) (\<lambda>a5.
                  (case net_epsilon nl of
                     None \<Rightarrow> Inl AttributeError
                   | Some eps \<Rightarrow> Inr (absorb_bn a0 a1 a2 a3 a4 a5 eps))))))))))
            else Inr wb))))"

subsection \<open>One iteration of the loop over \<open>model_protobuf.layer\<close>\<close>

text \<open>
  \<open>bn_layers\<close> is imported from \<open>snntoolbox.config\<close> and \<open>border_mode_string\<close> from
  \<open>snntoolbox.model_libs.common\<close>; both are parameters. \<open>layers\<close> is the list of
  attributes emitted so far.
\<close>

text \<open>
  Lines 165 to 175: the values stored under \<open>weights\<close> and \<open>activation\<close>, for a layer
  of type \<open>ltype\<close>.
\<close>

definition layer_weights ::
  "('a \<Rightarrow> 'a \<Rightarrow> 'a \<Rightarrow> 'a \<Rightarrow> 'a \<Rightarrow> 'a \<Rightarrow> 'a \<Rightarrow> 'a list) \<Rightarrow>
   'a caffe_net \<Rightarrow> string \<Rightarrow> string \<Rightarrow> 'a net_layer option \<Rightarrow>
   error + 'a list option \<times> string option" where
  "layer_weights absorb_bn model layer_key ltype next_layer =
     (let next_layer_type = map_option net_type next_layer in
      if ltype = ''Dense'' \<or> ltype = ''Convolution2D''
      then bind_err (affine_weights absorb_bn model layer_key next_layer)
             (\<lambda>wb. Inr (Some wb,
                if next_layer_type = Some ''Softmax'' then Some ''softmax''
                else if next_layer_type = Some ''ReLU'' then Some ''relu''
                else None))
      else Inr (None, None))"

text \<open>
  Lines 177 to 205: the attributes added for a convolution or a pooling layer. \<open>ins\<close> is
  the value of \<open>input_shape if layer_num == 0 else layers[-1]['output_shape']\<close>, read
  after \<open>border_mode_string\<close> has returned.
\<close>

definition layer_geometry ::
  "(int \<times> int \<Rightarrow> int list \<Rightarrow> error + string) \<Rightarrow> proto_layer \<Rightarrow> string \<Rightarrow>
   error + int list \<Rightarrow> 'a attributes \<Rightarrow> error + 'a attributes" where
  "layer_geometry border_mode_string layer ltype ins attrs0 =
     (if ltype = ''Convolution2D'' then
        (let p = conv_param layer in
         bind_err (py_index (kernel_size p) 0) (\<lambda>k0.
         bind_err (py_last (kernel_size p)) (\<lambda>k1.
           let filter_size = [max (kernel_w p) k0, max (kernel_h p) k1] in
           bind_err (border_mode_string (pad_w p, pad_h p) filter_size) (\<lambda>bm.
           bind_err ins (\<lambda>i.
             Inr (attrs0 \<lparr> attr_input_shape := Some i, attr_nb_filter := Some (num_output p),
                            attr_nb_col := Some (filter_size ! 0),
                            attr_nb_row := Some (filter_size ! 1),
                            attr_border_mode := Some bm \<rparr>))))))
      else if ltype = ''MaxPooling2D'' \<or> ltype = ''AveragePooling2D'' then
        (let p = pool_param layer;
             psize = [max (pool_kernel_w p) (pool_kernel_size p),
                      max (pool_kernel_h p) (pool_kernel_size p)];
             pad = (max (pool_pad_w p) (pool_pad p), max (pool_pad_h p) (pool_pad p))
         in
         bind_err (border_mode_string pad psize) (\<lambda>bm.
           let strs = [max (stride_w p) (stride p), max (stride_h p) (stride p)] in
           bind_err ins (\<lambda>i.
             Inr (attrs0 \<lparr> attr_input_shape := Some i, attr_pool_size := Some psize,
                            attr_strides := Some strs, attr_border_mode := Some bm \<rparr>))))
      else Inr attrs0)"

text \<open>The iteration itself. The result \<open>Inr None\<close> is a skipped \<open>Data\<close> layer.\<close>

definition extract_layer ::
  "string set \<Rightarrow> ('a \<Rightarrow> 'a \<Rightarrow> 'a \<Rightarrow> 'a \<Rightarrow> 'a \<Rightarrow> 'a \<Rightarrow> 'a \<Rightarrow> 'a list) \<Rightarrow>
   (int \<times> int \<Rightarrow> int list \<Rightarrow> error + string) \<Rightarrow> string \<Rightarrow>
   'a caffe_net \<Rightarrow> int list \<Rightarrow> 'a attributes list \<Rightarrow> nat \<Rightarrow> proto_layer \<Rightarrow>
   error + 'a attributes option" where
  "extract_layer bn_layers absorb_bn border_mode_string pool_method model input_dim layers n layer =
     (case layer_type_of pool_method (proto_type layer) of
        None \<Rightarrow> Inr None
      | Some ltype \<Rightarrow>
          let layer_key = proto_name layer in
          bind_err (case blobs model layer_key of
                      None \<Rightarrow> bind_err (py_last layers) (\<lambda>l. Inr (attr_output_shape l))
                    | Some shape \<Rightarrow> Inr shape) (\<lambda>oshape.
          bind_err (make_label n ltype oshape) (\<lambda>lab.
            let next_layer = (if n + 1 < length (net_layers model)
                              then Some (net_layers model ! (n + 1)) else None);
                next_layer_type = map_option net_type next_layer
            in
            if next_layer_type = Some ''BatchNormalization'' \<and> ltype \<notin> bn_layers
            then Inl NotImplementedError
            else
              bind_err (layer_weights absorb_bn model layer_key ltype next_layer) (\<lambda>(wb, act).
              let ins = (if n = 0 then Inr input_dim
                         else bind_err (py_last layers) (\<lambda>l. Inr (attr_output_shape l)));
                  attrs0 = \<lparr> attr_layer_num = n, attr_layer_type = ltype,
                            attr_output_shape = oshape, attr_label = lab,
                            attr_activation = act, attr_weights = wb,
                            attr_input_shape = None, attr_nb_filter = None, attr_nb_col = None,
                            attr_nb_row = None, attr_border_mode = None, attr_pool_size = None,
                            attr_strides = None, attr_get_activ = False \<rparr>
              in
              bind_err (layer_geometry border_mode_string layer ltype ins attrs0) (\<lambda>attrs.
                Inr (Some (if ltype = ''Activation'' \<or> ltype = ''AveragePooling2D''
                              \<or> ltype = ''MaxPooling2D''
                           then attrs \<lparr> attr_get_activ := True \<rparr> else attrs)))))))"

subsection \<open>The whole loop\<close>

text \<open>
  The loop state is the triple of \<open>layers\<close>, \<open>labels\<close> and \<open>layer_idx_map\<close>;
  \<open>extract_from\<close> runs the iterations for the remaining protocol buffer layers,
  \<open>n\<close> being the \<open>enumerate\<close> index of the first of them.
\<close>

record 'a parsed =
  parsed_input_shape :: "int list"
  parsed_layers :: "'a attributes list"
  parsed_labels :: "string list"
  parsed_layer_idx_map :: "nat list"

fun extract_from ::
  "string set \<Rightarrow> ('a \<Rightarrow> 'a \<Rightarrow> 'a \<Rightarrow> 'a \<Rightarrow> 'a \<Rightarrow> 'a \<Rightarrow> 'a \<Rightarrow> 'a list) \<Rightarrow>
   (int \<times> int \<Rightarrow> int list \<Rightarrow> error + string) \<Rightarrow> string \<Rightarrow>
   'a caffe_net \<Rightarrow> int list \<Rightarrow> nat \<Rightarrow> proto_layer list \<Rightarrow>
   'a attributes list \<times> string list \<times> nat list \<Rightarrow>
   error + 'a attributes list \<times> string list \<times> nat list" where
  "extract_from bn absorb bms pm model input_dim n [] acc = Inr acc"
| "extract_from bn absorb bms pm model input_dim n (layer # rest) (layers, labels, idx_map) =
     (case extract_layer bn absorb bms pm model input_dim layers n layer of
        Inl e \<Rightarrow> Inl e
      | Inr None \<Rightarrow> extract_from bn absorb bms pm model input_dim (n + 1) rest (layers, labels, idx_map)
      | Inr (Some attrs) \<Rightarrow>
          extract_from bn absorb bms pm model input_dim (n + 1) rest
            (layers @ [attrs], labels @ [attr_label attrs], idx_map @ [n]))"

definition extract_model ::
  "string set \<Rightarrow> ('a \<Rightarrow> 'a \<Rightarrow> 'a \<Rightarrow> 'a \<Rightarrow> 'a \<Rightarrow> 'a \<Rightarrow> 'a \<Rightarrow> 'a list) \<Rightarrow>
   (int \<times> int \<Rightarrow> int list \<Rightarrow> error + string) \<Rightarrow> string \<Rightarrow>
   'a caffe_net \<Rightarrow> int list \<Rightarrow> proto_layer list \<Rightarrow> error + 'a parsed" where
  "extract_model bn absorb bms pm model input_dim proto_layers =
     bind_err (extract_from bn absorb bms pm model input_dim 0 proto_layers ([], [], []))
       (\<lambda>(layers, labels, idx_map).
          Inr \<lparr> parsed_input_shape = input_dim, parsed_layers = layers,
                parsed_labels = labels, parsed_layer_idx_map = idx_map \<rparr>)"


section \<open>The spiking network builder (\<open>pyNN_target_sim.SNN\<close>)\<close>

subsection \<open>Populations and the simulator back end\<close>

text \<open>
  pyNN is an external library. A \<open>Population\<close> is modelled by what the builder passes to
  its constructor and reads back: size, cell type, structure, label, the parameter values
  of its cells (\<open>get\<close> and \<open>set\<close>) and the initial value of \<open>v\<close>. A parameter value is
  one number for all cells or one number per cell. \<open>get\<close> and \<open>set\<close> of a name that
  the cell type does not have raise (the builder catches it as \<open>KeyError\<close>). \<open>set\<close>
  with one number per cell raises \<open>InvalidDimensionsError\<close>, a \<open>ValueError\<close>, unless
  there are as many numbers as cells. \<open>get\<close> returns one number when the value is the
  same for all cells, and the array of the values otherwise. The constructor raises
  \<open>IndexError\<close> for a population without cells.
\<close>

datatype celltype = SpikeSourcePoisson | SpikeSourceArray | IF_curr_exp

datatype pvalue = Scalar real | Array "real list"

record population =
  pop_size :: int
  pop_celltype :: celltype
  pop_params :: "string \<rightharpoonup> pvalue"
  pop_structure :: "string option"
  pop_label :: string
  pop_initial_v :: "pvalue option"

text \<open>
  The module \<open>self.sim\<close>: the default parameters of each cell type, the text that
  \<open>celltype.describe()\<close> renders, and \<open>getattr(sim, name)\<close> for a cell type name.
\<close>

record simulator =
  default_parameters :: "celltype \<Rightarrow> (string \<rightharpoonup> pvalue)"
  describe :: "celltype \<Rightarrow> string"
  celltype_named :: "string \<Rightarrow> celltype option"

text \<open>What \<open>get\<close> returns for a stored value: one number for an array of equal entries.\<close>

fun simplify_value :: "pvalue \<Rightarrow> pvalue" where
  "simplify_value (Scalar x) = Scalar x"
| "simplify_value (Array []) = Array []"
| "simplify_value (Array (x # xs)) =
     (if list_all (\<lambda>y. y = x) xs then Scalar x else Array (x # xs))"

definition pop_get :: "population \<Rightarrow> string \<Rightarrow> error + pvalue" where
  "pop_get p k =
     (case pop_params p k of None \<Rightarrow> Inl KeyError | Some v \<Rightarrow> Inr (simplify_value v))"

text \<open>Whether a value can be set on a population of \<open>n\<close> cells.\<close>

fun value_fits :: "int \<Rightarrow> pvalue \<Rightarrow> bool" where
  "value_fits n (Scalar x) = True"
| "value_fits n (Array xs) = (int (length xs) = n)"

definition pop_set :: "population \<Rightarrow> string \<Rightarrow> pvalue \<Rightarrow> error + population" where
  "pop_set p k v =
     (if pop_params p k = None then Inl KeyError
      else if \<not> value_fits (pop_size p) v then Inl ValueError
      else Inr (p \<lparr> pop_params := (pop_params p)(k \<mapsto> v) \<rparr>))"

text \<open>\<open>population.set(**cellparams)\<close>, one parameter after the other.\<close>

fun pop_set_all :: "population \<Rightarrow> (string \<times> real) list \<Rightarrow> error + population" where
  "pop_set_all p [] = Inr p"
| "pop_set_all p ((k, v) # kvs) = bind_err (pop_set p k (Scalar v)) (\<lambda>p'. pop_set_all p' kvs)"

text \<open>\<open>sim.Population(size, celltype, cellparams, structure=..., label=...)\<close>.\<close>

definition new_population ::
  "simulator \<Rightarrow> int \<Rightarrow> celltype \<Rightarrow> (string \<times> real) list \<Rightarrow> string option \<Rightarrow> string \<Rightarrow>
   error + population" where
  "new_population backend n ct cellparams struct lab =
     (if n < 1 then Inl IndexError
      else pop_set_all \<lparr> pop_size = n, pop_celltype = ct,
                         pop_params = default_parameters backend ct,
                         pop_structure = struct, pop_label = lab, pop_initial_v = None \<rparr>
             cellparams)"

subsection \<open>Connections, projections and parsed layers\<close>

text \<open>A connection entry is \<open>(source index, target index, weight, delay)\<close>.\<close>

type_synonym connection = "int \<times> int \<times> real \<times> real"

text \<open>
  A \<open>Projection\<close> between two populations of \<open>self.layers\<close>, given by their positions in
  that list. pyNN labels it with the two population labels around a right arrow (U+2192,
  three bytes in UTF-8).
\<close>

record projection =
  proj_pre :: nat
  proj_post :: nat
  proj_entries :: "connection list"
  proj_label :: string

definition arrow :: string where
  "arrow = [CHR 0xE2, CHR 0x86, CHR 0x92]"

text \<open>A two-dimensional numpy array: its shape and its entries.\<close>

record ndarray2 =
  shape0 :: nat
  shape1 :: nat
  entry :: "nat \<Rightarrow> nat \<Rightarrow> real"

text \<open>
  The attribute \<open>padding\<close> of a parsed layer: a tuple of integers and integer tuples on a
  \<open>ZeroPadding\<close> layer, the border mode string on a convolution layer.
\<close>

datatype pad_entry = PadInt int | PadTuple "int list"

datatype padding = PaddingTuple "pad_entry list" | PaddingMode string

text \<open>
  A layer of the parsed model: its class name, \<open>name\<close>, \<open>output_shape\<close> (batch
  dimension first), \<open>padding\<close>, the name of its activation function, and what
  \<open>get_weights()\<close> returns when it is a pair of a weight matrix and a bias vector.
\<close>

record keras_layer =
  class_name :: string
  layer_name :: string
  layer_output_shape :: "int list"
  layer_padding :: padding
  activation_name :: string
  get_weights :: "(ndarray2 \<times> real list) option"

subsection \<open>Files\<close>

text \<open>
  A file is the list of the blocks written to it. The replay script is written as blocks
  of lines, one block per builder call, each determined by the values formatted into it;
  the other files are written in one piece.
\<close>

record pop_data =
  data_size :: int
  data_structure :: "string option"
  data_label :: string
  data_celltype :: string
  data_i_offset :: "pvalue option"

datatype assembly_entry =
    PopData pop_data
  | LabelList "string list"
  | VariableList "string list"
  | Count nat

type_synonym assembly = "string \<rightharpoonup> assembly_entry"

datatype block =
    ScriptHeader string string "int list"
  | ScriptLayer string "int list"
  | ScriptDense
  | ScriptConvolution
  | ScriptPooling
  | ScriptFooter
  | Pickled assembly
  | ConnectionRows "connection list"
  | BiasRows "real list"

type_synonym filesystem = "string \<rightharpoonup> block list"


definition fs_append :: "filesystem \<Rightarrow> string \<Rightarrow> block list \<Rightarrow> filesystem" where
  "fs_append fs path bs = fs(path \<mapsto> (case fs path of None \<Rightarrow> [] | Some old \<Rightarrow> old) @ bs)"

text \<open>\<open>os.path.join\<close> of two components (POSIX).\<close>

definition path_join :: "string \<Rightarrow> string \<Rightarrow> string" where
  "path_join a b =
     (if b \<noteq> [] \<and> hd b = CHR ''/'' then b
      else if a = [] \<or> last a = CHR ''/'' then a @ b
      else a @ ''/'' @ b)"

subsection \<open>The state of an \<open>SNN\<close> object\<close>

record config =
  path_wd :: string
  filename_snn :: string
  log_dir_of_current_run :: string
  cell_delay :: real
  simulate :: bool
  overwrite :: bool
  keras_backend :: string

record snn =
  config :: config
  sim :: simulator
  layers :: "population list"
  connections :: "projection list"
  cellparams :: "(string \<times> real) list"
  change_padding :: bool
  output_script_path :: string
  flatten_shapes :: "(string \<times> int list) list"
  data_format :: string
  dt :: real
  poisson_input :: bool

text \<open>
  \<open>__init__\<close>: \<open>cell\<close> is the list of cell parameters read from the configuration;
  \<open>i_offset\<close> is removed from it. The fields \<open>flatten_shapes\<close>, \<open>data_format\<close>,
  \<open>_dt\<close> and \<open>_poisson_input\<close> are set by the base class.
\<close>

definition snn_init ::
  "config \<Rightarrow> simulator \<Rightarrow> (string \<times> real) list \<Rightarrow> string \<Rightarrow> real \<Rightarrow> bool \<Rightarrow> snn" where
  "snn_init c backend cell fmt step poisson =
     \<lparr> config = c, sim = backend, layers = [], connections = [],
       cellparams = filter (\<lambda>kv. fst kv \<noteq> ''i_offset'') cell,
       change_padding = False,
       output_script_path = path_join (path_wd c) (filename_snn c @ ''.py''),
       flatten_shapes = [], data_format = fmt, dt = step, poisson_input = poisson \<rparr>"

subsection \<open>\<open>add_input_layer\<close>\<close>


subsection \<open>\<open>add_layer\<close>\<close>

text \<open>The test \<open>sub in s\<close> on strings.\<close>

fun contains :: "string \<Rightarrow> string \<Rightarrow> bool" where
  "contains sub [] = (sub = [])"
| "contains sub (c # cs) = (prefix sub (c # cs) \<or> contains sub cs)"

text \<open>
  \<open>set(padding).issubset((1, (1, 1)))\<close>: every element of the padding is the integer 1
  or the pair \<open>(1, 1)\<close>. The elements of a string are its characters, none of which is
  one of the two.
\<close>

definition padding_supported :: "padding \<Rightarrow> bool" where
  "padding_supported p =
     (case p of
        PaddingTuple es \<Rightarrow> list_all (\<lambda>e. e = PadInt 1 \<or> e = PadTuple [1, 1]) es
      | PaddingMode m \<Rightarrow> m = [])"

definition add_layer :: "snn \<Rightarrow> keras_layer \<Rightarrow> filesystem \<Rightarrow> error + snn \<times> filesystem" where
  "add_layer s layer fs =
     (if contains ''ZeroPadding'' (class_name layer) then
        (if padding_supported (layer_padding layer) then Inr (s \<lparr> change_padding := True \<rparr>, fs)
         else Inl NotImplementedError)
      else if contains ''Flatten'' (class_name layer) then
        bind_err (py_last (layers s)) (\<lambda>prev.
        bind_err (get_shape_from_label (pop_label prev)) (\<lambda>shape.
          Inr (s \<lparr> flatten_shapes := flatten_shapes s @ [(layer_name layer, shape)] \<rparr>, fs)))
      else
        bind_err (new_population (sim s) (prod_list (drop 1 (layer_output_shape layer)))
                    IF_curr_exp (cellparams s) None (layer_name layer)) (\<lambda>p.
        bind_err (pop_get p ''v_rest'') (\<lambda>v.
          Inr (s \<lparr> layers := layers s @ [p \<lparr> pop_initial_v := Some v \<rparr>] \<rparr>,
               fs_append fs (output_script_path s)
                 [ScriptLayer (layer_name layer) (drop 1 (layer_output_shape layer))]))))"

text \<open>Successive calls of \<open>add_layer\<close>, one per layer of the parsed model.\<close>

fun add_layers :: "snn \<Rightarrow> keras_layer list \<Rightarrow> filesystem \<Rightarrow> error + snn \<times> filesystem" where
  "add_layers s [] fs = Inr (s, fs)"
| "add_layers s (l # ls) fs = bind_err (add_layer s l fs) (\<lambda>(s', fs'). add_layers s' ls fs')"

subsection \<open>\<open>set_biases\<close>\<close>

text \<open>
  \<open>np.any(biases)\<close> is false exactly when every entry is zero (also for the empty
  vector). Otherwise \<open>i_offset\<close> of the last population is set to
  \<open>biases*self._dt/1e2\<close>, which raises when the population has another number of cells
  than the vector has entries.
\<close>

definition set_biases :: "snn \<Rightarrow> real list \<Rightarrow> error + snn" where
  "set_biases s biases =
     (if list_all (\<lambda>b. b = 0) biases then Inr s
      else
        bind_err (py_last (layers s)) (\<lambda>p.
        bind_err (pop_set p ''i_offset'' (Array (map (\<lambda>b. b * dt s / 100) biases))) (\<lambda>p'.
          Inr (s \<lparr> layers := butlast (layers s) @ [p'] \<rparr>))))"

subsection \<open>\<open>build_dense\<close>\<close>

text \<open>
  Lines 223 to 229: the source index for input neuron \<open>i\<close>, from the dimensions of the
  pending flatten shape. \<open>%\<close> and \<open>//\<close> raise on a zero divisor.
\<close>

definition remap_index :: "int \<Rightarrow> int \<Rightarrow> int \<Rightarrow> int \<Rightarrow> error + int" where
  "remap_index y_in x_in f_in i =
     (if f_in = 0 then Inl ZeroDivisionError
      else let f = i mod f_in in
        if f_in * x_in = 0 then Inl ZeroDivisionError
        else let y = i div (f_in * x_in);
                 x = (i div f_in) mod x_in
             in Inr (f * x_in * y_in + x_in * y + x))"

text \<open>The inner loop over the output neurons \<open>j\<close> for one input neuron.\<close>

definition dense_row :: "ndarray2 \<Rightarrow> real \<Rightarrow> int \<Rightarrow> nat \<Rightarrow> connection list" where
  "dense_row weights delay src i =
     map (\<lambda>j. (src, int j, entry weights i j, delay)) [0..<shape1 weights]"

text \<open>The outer loop of the remapping branch, over the input neurons still to visit.\<close>

fun flatten_rows ::
  "ndarray2 \<Rightarrow> real \<Rightarrow> int \<Rightarrow> int \<Rightarrow> int \<Rightarrow> nat list \<Rightarrow> error + connection list" where
  "flatten_rows weights delay y_in x_in f_in [] = Inr []"
| "flatten_rows weights delay y_in x_in f_in (i # rest) =
     bind_err (remap_index y_in x_in f_in (int i)) (\<lambda>new_i.
     bind_err (flatten_rows weights delay y_in x_in f_in rest) (\<lambda>others.
       Inr (dense_row weights delay new_i i @ others)))"

text \<open>
  Lines 211 to 237: the connection list and the flatten records left pending.
  \<open>flatten_shapes.pop()\<close> removes the last record; unpacking its shape into three names
  raises \<open>ValueError\<close> unless it has three entries.
\<close>

definition dense_connections ::
  "(string \<times> int list) list \<Rightarrow> string \<Rightarrow> ndarray2 \<Rightarrow> real \<Rightarrow>
   error + connection list \<times> (string \<times> int list) list" where
  "dense_connections pending fmt weights delay =
     (if length pending = 1 then
        (let shape = snd (last pending); remaining = butlast pending in
         if length shape \<noteq> 3 then Inl ValueError
         else
           let y_in = (if fmt = ''channels_last'' then shape ! 0 else shape ! 1);
               x_in = (if fmt = ''channels_last'' then shape ! 1 else shape ! 2);
               f_in = (if fmt = ''channels_last'' then shape ! 2 else shape ! 0)
           in bind_err (flatten_rows weights delay y_in x_in f_in [0..<shape0 weights])
                (\<lambda>conns. Inr (conns, remaining)))
      else if length pending > 1 then Inl RuntimeWarning
      else Inr (concat (map (\<lambda>i. dense_row weights delay (int i) i) [0..<shape0 weights]),
                pending))"

text \<open>
  \<open>self.connections.append(self.sim.Projection(self.layers[-2], self.layers[-1], ...))\<close>.
\<close>

definition add_projection :: "snn \<Rightarrow> connection list \<Rightarrow> error + snn" where
  "add_projection s conns =
     (let n = length (layers s) in
      if n < 2 then Inl IndexError
      else Inr (s \<lparr> connections := connections s @
                  [\<lparr> proj_pre = n - 2, proj_post = n - 1, proj_entries = conns,
                     proj_label = pop_label (layers s ! (n - 2)) @ arrow
                                  @ pop_label (layers s ! (n - 1)) \<rparr>] \<rparr>))"

text \<open>
  The warning about a \<open>softmax\<close> activation changes nothing in the state and is left out.
\<close>

definition build_dense :: "snn \<Rightarrow> keras_layer \<Rightarrow> filesystem \<Rightarrow> error + snn \<times> filesystem" where
  "build_dense s layer fs =
     (case get_weights layer of
        None \<Rightarrow> Inl ValueError
      | Some (weights, biases) \<Rightarrow>
          bind_err (set_biases s biases) (\<lambda>s1.
          bind_err (dense_connections (flatten_shapes s1) (data_format s1) weights
                      (cell_delay (config s1))) (\<lambda>(conns, remaining).
            let s2 = s1 \<lparr> flatten_shapes := remaining \<rparr> in
            bind_err (if simulate (config s2) then add_projection s2 conns else Inr s2) (\<lambda>s3.
              Inr (s3, fs_append fs (output_script_path s3) [ScriptDense])))))"

subsection \<open>\<open>build_convolution\<close>, \<open>build_pooling\<close> and \<open>compile\<close>\<close>

text \<open>
  The connection lists of convolution and pooling layers are computed by
  \<open>snntoolbox.simulation.utils.build_convolution\<close> and \<open>build_pooling\<close>, which are
  parameters (\<open>conv_util\<close>, \<open>pool_util\<close>).
\<close>

definition build_convolution ::
  "(keras_layer \<Rightarrow> real \<Rightarrow> bool \<Rightarrow> error + connection list \<times> real list) \<Rightarrow>
   snn \<Rightarrow> keras_layer \<Rightarrow> filesystem \<Rightarrow> error + snn \<times> filesystem" where
  "build_convolution conv_util s layer fs =
     bind_err (if change_padding s then
                 (if layer_padding layer = PaddingMode ''valid''
                  then Inr (s \<lparr> change_padding := False \<rparr>,
                            layer \<lparr> layer_padding := PaddingMode ''ZeroPadding'' \<rparr>)
                  else Inl NotImplementedError)
               else Inr (s, layer)) (\<lambda>(s1, layer1).
     bind_err (conv_util layer1 (cell_delay (config s1))
                 (keras_backend (config s1) = ''tensorflow'')) (\<lambda>(conns, biases).
     bind_err (set_biases s1 biases) (\<lambda>s2.
     bind_err (if simulate (config s2) then add_projection s2 conns else Inr s2) (\<lambda>s3.
       Inr (s3, fs_append fs (output_script_path s3) [ScriptConvolution])))))"

definition build_pooling ::
  "(keras_layer \<Rightarrow> real \<Rightarrow> error + connection list) \<Rightarrow>
   snn \<Rightarrow> keras_layer \<Rightarrow> filesystem \<Rightarrow> error + snn \<times> filesystem" where
  "build_pooling pool_util s layer fs =
     bind_err (pool_util layer (cell_delay (config s))) (\<lambda>conns.
     bind_err (if simulate (config s) then add_projection s conns else Inr s) (\<lambda>s1.
       Inr (s1, fs_append fs (output_script_path s1) [ScriptPooling])))"

definition compile_snn :: "snn \<Rightarrow> filesystem \<Rightarrow> filesystem" where
  "compile_snn s fs = fs_append fs (output_script_path s) [ScriptFooter]"


subsection \<open>Saving: \<open>save_assembly\<close>, \<open>save_connections\<close>, \<open>save_biases\<close>\<close>










subsection \<open>Loading: \<open>load_assembly\<close>\<close>

text \<open>\<open>cPickle.load\<close> returns the object that \<open>cPickle.dump\<close> wrote to the file.\<close>

definition pickle_load :: "filesystem \<Rightarrow> string \<Rightarrow> error + assembly" where
  "pickle_load fs filepath =
     (case fs filepath of
        Some [Pickled a] \<Rightarrow> Inr a
      | _ \<Rightarrow> Inl UnpicklingError)"

text \<open>
  The loop over \<open>s['variables']\<close>: an attribute of the new population that is \<open>None\<close> is
  set from the stored data. \<open>size\<close>, \<open>label\<close> and \<open>celltype\<close> are never \<open>None\<close>, and a
  \<open>structure\<close> that is \<open>None\<close> is set to the stored structure, which the constructor
  was given already; so the population only changes when a key is missing from the
  stored data, which raises.
\<close>

fun restore_variables :: "pop_data \<Rightarrow> string list \<Rightarrow> error + unit" where
  "restore_variables d [] = Inr ()"
| "restore_variables d (v # vs) =
     (if v = ''size'' \<or> v = ''structure'' \<or> v = ''label'' \<or> v = ''celltype''
         \<or> (v = ''i_offset'' \<and> data_i_offset d \<noteq> None)
      then restore_variables d vs
      else Inl KeyError)"

definition load_population ::
  "simulator \<Rightarrow> assembly \<Rightarrow> string \<Rightarrow> error + population" where
  "load_population backend a lab =
     bind_err (py_lookup a lab) (\<lambda>e.
       case e of
         PopData d \<Rightarrow>
           (case celltype_named backend (data_celltype d) of
              None \<Rightarrow> Inl AttributeError
            | Some ct \<Rightarrow>
                bind_err (new_population backend (data_size d) ct [] (data_structure d) lab) (\<lambda>p.
                bind_err (py_lookup a ''variables'') (\<lambda>vs.
                  case vs of
                    VariableList variables \<Rightarrow>
                      bind_err (restore_variables d variables) (\<lambda>u.
                        if lab \<noteq> ''InputLayer'' then
                          (case data_i_offset d of
                             None \<Rightarrow> Inl KeyError
                           | Some v \<Rightarrow> pop_set p ''i_offset'' v)
                        else Inr p)
                  | _ \<Rightarrow> Inl TypeError)))
       | _ \<Rightarrow> Inl TypeError)"

fun load_populations ::
  "simulator \<Rightarrow> assembly \<Rightarrow> string list \<Rightarrow> error + population list" where
  "load_populations backend a [] = Inr []"
| "load_populations backend a (lab # labs) =
     bind_err (load_population backend a lab) (\<lambda>p.
     bind_err (load_populations backend a labs) (\<lambda>ps. Inr (p # ps)))"

definition load_assembly :: "snn \<Rightarrow> string \<Rightarrow> string \<Rightarrow> filesystem \<Rightarrow> error + population list" where
  "load_assembly s path filename fs =
     (let filepath = path_join path filename in
      if fs filepath = None then Inl AssertionError
      else
        bind_err (pickle_load fs filepath) (\<lambda>a.
        bind_err (py_lookup a ''labels'') (\<lambda>ls.
          case ls of
            LabelList labels \<Rightarrow> load_populations (sim s) a labels
          | _ \<Rightarrow> Inl TypeError)))"

subsection \<open>The descriptor entry of a population and the population built from it\<close>




subsection \<open>Loading: \<open>get_snn_from_script\<close> and \<open>load\<close>\<close>

text \<open>\<open>os.path.basename\<close>, \<open>os.path.dirname\<close> and \<open>os.path.splitext\<close> (POSIX).\<close>

definition basename :: "string \<Rightarrow> string" where
  "basename p = rev (takeWhile (\<lambda>c. c \<noteq> CHR ''/'') (rev p))"

definition dirname :: "string \<Rightarrow> string" where
  "dirname p =
     (let head = rev (dropWhile (\<lambda>c. c \<noteq> CHR ''/'') (rev p)) in
      if head \<noteq> [] \<and> \<not> list_all (\<lambda>c. c = CHR ''/'') head
      then rev (dropWhile (\<lambda>c. c = CHR ''/'') (rev head))
      else head)"

text \<open>\<open>splitext\<close> of a name without a directory part.\<close>

definition splitext :: "string \<Rightarrow> string \<times> string" where
  "splitext p =
     (let after_dot = takeWhile (\<lambda>c. c \<noteq> CHR ''.'') (rev p);
          root = take (length p - length after_dot - 1) p
      in if CHR ''.'' \<in> set p \<and> \<not> list_all (\<lambda>c. c = CHR ''.'') root
         then (root, drop (length root) p)
         else (p, []))"

definition fs_rename :: "filesystem \<Rightarrow> string \<Rightarrow> string \<Rightarrow> error + filesystem" where
  "fs_rename fs src dst =
     (case fs src of
        None \<Rightarrow> Inl FileNotFoundError
      | Some content \<Rightarrow> Inr ((fs(src := None))(dst \<mapsto> content)))"

text \<open>
  Running the script is outside the toolbox: \<open>import_module\<close> (given the file system, the
  directory appended to \<open>sys.path\<close> and the module name) and the script's \<open>get_model\<close>
  are parameters, and \<open>None\<close> is any exception they raise. A file name with a dot in it is
  renamed for the import and renamed back before \<open>get_model\<close> is called.
\<close>

definition get_snn_from_script ::
  "(filesystem \<Rightarrow> string \<Rightarrow> string \<Rightarrow> 'm option) \<Rightarrow>
   ('m \<Rightarrow> filesystem \<Rightarrow> (simulator \<times> population list) option) \<Rightarrow>
   filesystem \<Rightarrow> string \<Rightarrow> error + (simulator \<times> population list) \<times> filesystem" where
  "get_snn_from_script import_module get_model fs filepath =
     (let path = dirname filepath;
          (filename, ext) = splitext (basename filepath)
      in if CHR ''.'' \<in> set filename then
           (let filename_new = map (\<lambda>c. if c = CHR ''.'' then CHR 0x60 else c) filename in
            bind_err (fs_rename fs (path_join path (filename @ ext))
                        (path_join path (filename_new @ ext))) (\<lambda>fs1.
              case import_module fs1 path filename_new of
                None \<Rightarrow> Inl ScriptRaised
              | Some m \<Rightarrow>
                  bind_err (fs_rename fs1 (path_join path (filename_new @ ext))
                              (path_join path (filename @ ext))) (\<lambda>fs2.
                    case get_model m fs2 of
                      None \<Rightarrow> Inl ScriptRaised
                    | Some r \<Rightarrow> Inr (r, fs2))))
         else
           (case import_module fs path filename of
              None \<Rightarrow> Inl ScriptRaised
            | Some m \<Rightarrow>
                (case get_model m fs of
                   None \<Rightarrow> Inl ScriptRaised
                 | Some r \<Rightarrow> Inr (r, fs))))"

text \<open>
  The loop of \<open>load\<close> over \<open>i\<close> in \<open>range(len(self.layers) - 1)\<close>. The projection that
  is built from the connection file lives in the simulator; the \<open>SNN\<close> object keeps no
  reference to it.
\<close>

fun connect_loaded ::
  "snn \<Rightarrow> string \<Rightarrow> filesystem \<Rightarrow> nat list \<Rightarrow> population list \<Rightarrow> error + population list" where
  "connect_loaded s path fs [] ls = Inr ls"
| "connect_loaded s path fs (i # rest) ls =
     (let filepath = path_join path (pop_label (ls ! (i + 1))) in
      if fs filepath = None then Inl AssertionError
      else
        bind_err (pop_set_all (ls ! (i + 1)) (cellparams s)) (\<lambda>p.
        bind_err (pop_get p ''v_rest'') (\<lambda>v.
          connect_loaded s path fs rest (ls[i + 1 := p \<lparr> pop_initial_v := Some v \<rparr>]))))"

definition load_snn ::
  "(filesystem \<Rightarrow> string \<Rightarrow> string \<Rightarrow> 'm option) \<Rightarrow>
   ('m \<Rightarrow> filesystem \<Rightarrow> (simulator \<times> population list) option) \<Rightarrow>
   snn \<Rightarrow> string \<Rightarrow> string \<Rightarrow> filesystem \<Rightarrow> error + snn \<times> filesystem" where
  "load_snn import_module get_model s path filename fs =
     (if fs (output_script_path s) \<noteq> None then
        bind_err (get_snn_from_script import_module get_model fs (output_script_path s))
          (\<lambda>((backend, ls), fs'). Inr (s \<lparr> sim := backend, layers := ls \<rparr>, fs'))
      else
        bind_err (load_assembly s path filename fs) (\<lambda>ls.
        bind_err (connect_loaded s path fs [0..<length ls - 1] ls) (\<lambda>ls'.
          Inr (s \<lparr> layers := ls' \<rparr>, fs))))"


section \<open>The specification's wording of two operations\<close>

text \<open>
  The source index of a dense connection after a Flatten layer, as the specification
  words it: the linear input index \<open>i\<close> is decomposed into channel \<open>f\<close>, row \<open>y\<close> and
  column \<open>x\<close> under the configured layout (channels last: \<open>i = (y * width + x) * channels
  + f\<close>; channels first: \<open>i = (f * height + y) * width + x\<close>), and the canonical index
  is \<open>f * width * height + y * width + x\<close>.
\<close>

definition spec_decompose :: "string \<Rightarrow> int \<Rightarrow> int \<Rightarrow> int \<Rightarrow> int \<Rightarrow> int \<times> int \<times> int" where
  "spec_decompose fmt height width channels i =
     (if fmt = ''channels_last''
      then (i mod channels, i div (channels * width), (i div channels) mod width)
      else (i div (height * width), (i div width) mod height, i mod width))"

definition spec_source_index :: "string \<Rightarrow> int \<Rightarrow> int \<Rightarrow> int \<Rightarrow> int \<Rightarrow> int" where
  "spec_source_index fmt height width channels i =
     (case spec_decompose fmt height width channels i of
        (f, y, x) \<Rightarrow> f * width * height + y * width + x)"

text \<open>
  Modelled from the spec: \<open>absorb_bn\<close> of \<open>snntoolbox.model_libs.common\<close> is not among
  the sources. The specification gives the folded parameters as
  \<open>W' = W * gamma / sqrt (var + eps)\<close> and
  \<open>b' = (b - mean) * gamma / sqrt (var + eps) + beta\<close>; here on numbers, in the order
  of the call in \<open>extract\<close>.
\<close>

definition absorb_bn_spec ::
  "real \<Rightarrow> real \<Rightarrow> real \<Rightarrow> real \<Rightarrow> real \<Rightarrow> real \<Rightarrow> real \<Rightarrow> real list" where
  "absorb_bn_spec w b gamma beta mean var eps =
     [w * gamma / sqrt (var + eps), (b - mean) * gamma / sqrt (var + eps) + beta]"

text \<open>
  Modelled from the spec: \<open>bn_layers\<close> of \<open>snntoolbox.config\<close> is not among the sources.
  The specification lets a normalization layer follow an affine layer only.
\<close>

definition bn_layers_spec :: "string set" where
  "bn_layers_spec = {''Dense'', ''Convolution2D''}"

text \<open>
  Symmetric single-cell padding on all sides: an integer entry pads both sides of its
  axis by that amount, a pair gives the two sides, and every side is padded by one cell.
\<close>

fun pad_sides :: "pad_entry \<Rightarrow> int list" where
  "pad_sides (PadInt n) = [n, n]"
| "pad_sides (PadTuple ns) = ns"

definition single_cell_padding :: "pad_entry list \<Rightarrow> bool" where
  "single_cell_padding es = list_all (\<lambda>e. list_all (\<lambda>n. n = 1) (pad_sides e)) es"

text \<open>The entries of a padding tuple are integers or pairs.\<close>

fun pad_entry_ok :: "pad_entry \<Rightarrow> bool" where
  "pad_entry_ok (PadInt n) = True"
| "pad_entry_ok (PadTuple ns) = (length ns = 2)"

section \<open>Concrete inputs\<close>

text \<open>
  A simulator back end with the parameters \<open>v_rest\<close> and \<open>i_offset\<close> on its
  integrate-and-fire cells, a configuration that does not allow overwriting, and small
  networks and layers on which the theorems below are instantiated.
\<close>

definition example_backend :: simulator where
  "example_backend =
     \<lparr> default_parameters = (\<lambda>ct. case ct of
           IF_curr_exp \<Rightarrow> [''v_rest'' \<mapsto> Scalar (- 65), ''i_offset'' \<mapsto> Scalar 0]
         | _ \<Rightarrow> Map.empty),
       describe = (\<lambda>ct. case ct of
           SpikeSourcePoisson \<Rightarrow> ''SpikeSourcePoisson''
         | SpikeSourceArray \<Rightarrow> ''SpikeSourceArray''
         | IF_curr_exp \<Rightarrow> ''IF_curr_exp''),
       celltype_named = (\<lambda>n.
           if n = ''SpikeSourcePoisson'' then Some SpikeSourcePoisson
           else if n = ''SpikeSourceArray'' then Some SpikeSourceArray
           else if n = ''IF_curr_exp'' then Some IF_curr_exp
           else None) \<rparr>"

definition example_config :: config where
  "example_config =
     \<lparr> path_wd = ''/wd'', filename_snn = ''snn'', log_dir_of_current_run = ''/wd/log'',
       cell_delay = 1, simulate = True, overwrite = False, keras_backend = ''tensorflow'' \<rparr>"

definition example_input :: population where
  "example_input =
     \<lparr> pop_size = 4, pop_celltype = SpikeSourceArray, pop_params = Map.empty,
       pop_structure = None, pop_label = ''InputLayer'', pop_initial_v = None \<rparr>"

definition example_conv :: population where
  "example_conv =
     \<lparr> pop_size = 4, pop_celltype = IF_curr_exp,
       pop_params = [''v_rest'' \<mapsto> Scalar (- 65), ''i_offset'' \<mapsto> Scalar 0],
       pop_structure = None, pop_label = ''00Conv2D_2x1x2'',
       pop_initial_v = Some (Scalar (- 65)) \<rparr>"

definition example_dense :: population where
  "example_dense =
     \<lparr> pop_size = 1, pop_celltype = IF_curr_exp,
       pop_params = [''v_rest'' \<mapsto> Scalar (- 65), ''i_offset'' \<mapsto> Scalar 0],
       pop_structure = None, pop_label = ''02Dense_1'',
       pop_initial_v = Some (Scalar (- 65)) \<rparr>"

text \<open>A network under construction: the input layer and one convolution layer.\<close>

definition example_snn :: snn where
  "example_snn =
     (snn_init example_config example_backend [(''v_rest'', - 65)] ''channels_first'' (1 / 10) False)
       \<lparr> layers := [example_input, example_conv] \<rparr>"

text \<open>A weight matrix with four rows and one column, its entries 1 to 4.\<close>

definition example_weights :: ndarray2 where
  "example_weights = \<lparr> shape0 = 4, shape1 = 1, entry = (\<lambda>i j. real (i + 1)) \<rparr>"

definition example_flatten_layer :: keras_layer where
  "example_flatten_layer =
     \<lparr> class_name = ''Flatten'', layer_name = ''01Flatten_4'', layer_output_shape = [0, 4],
       layer_padding = PaddingMode ''valid'', activation_name = ''linear'',
       get_weights = None \<rparr>"

definition example_dense_layer :: keras_layer where
  "example_dense_layer =
     \<lparr> class_name = ''Dense'', layer_name = ''02Dense_1'', layer_output_shape = [0, 1],
       layer_padding = PaddingMode ''valid'', activation_name = ''relu'',
       get_weights = Some (example_weights, [5]) \<rparr>"

definition example_padding_layer :: keras_layer where
  "example_padding_layer =
     \<lparr> class_name = ''ZeroPadding2D'', layer_name = ''01ZeroPadding2D_2x3x4'',
       layer_output_shape = [0, 2, 3, 4],
       layer_padding = PaddingTuple [PadTuple [1, 1], PadTuple [1, 1]],
       activation_name = ''linear'', get_weights = None \<rparr>"

definition example_conv_layer :: keras_layer where
  "example_conv_layer =
     \<lparr> class_name = ''Conv2D'', layer_name = ''02Conv2D_2x1x2'', layer_output_shape = [0, 2, 1, 2],
       layer_padding = PaddingMode ''valid'', activation_name = ''relu'',
       get_weights = None \<rparr>"

text \<open>
  A Caffe network of an inner product layer \<open>fc1\<close> followed by a batch normalization
  layer with scale 1, shift 0, mean 0 and variance 1; and the protocol buffer entry of a
  layer, given its type and name.
\<close>

definition example_net :: "real caffe_net" where
  "example_net =
     \<lparr> blobs = [''fc1'' \<mapsto> [1, 10]],
       params = [''fc1'' \<mapsto> [2, 3]],
       net_layers =
         [\<lparr> net_type = ''InnerProduct'', net_blobs = [2, 3], net_epsilon = None \<rparr>,
          \<lparr> net_type = ''BatchNormalization'', net_blobs = [1, 0, 0, 1],
            net_epsilon = Some (1 / 1000) \<rparr>] \<rparr>"

definition example_proto :: "string \<Rightarrow> string \<Rightarrow> proto_layer" where
  "example_proto typ nam =
     \<lparr> proto_type = typ, proto_name = nam,
       conv_param = \<lparr> kernel_w = 0, kernel_h = 0, kernel_size = [], pad_w = 0, pad_h = 0,
                      num_output = 0 \<rparr>,
       pool_param = \<lparr> pool_kernel_w = 0, pool_kernel_h = 0, pool_kernel_size = 0,
                      pool_pad_w = 0, pool_pad_h = 0, pool_pad = 0,
                      stride_w = 0, stride_h = 0, stride = 0 \<rparr> \<rparr>"




text \<open>A file system that holds an older replay script at the script path.\<close>

definition example_fs :: filesystem where
  "example_fs = [''/wd/snn.py'' \<mapsto> [ScriptFooter]]"

section \<open>Verification: integers and strings\<close>

lemma digit_of_digit_char: "d < 10 \<Longrightarrow> digit_of_char (digit_char d) = Some d"
proof -
  assume "d < 10"
  then have "d = 0 \<or> d = 1 \<or> d = 2 \<or> d = 3 \<or> d = 4 \<or> d = 5 \<or> d = 6 \<or> d = 7
    \<or> d = 8 \<or> d = 9" by arith
  then show ?thesis by (elim disjE) (simp_all add: digit_char_def digit_of_char_def)
qed

lemma digit_char_in: "d < 10 \<Longrightarrow> digit_char d \<in> set ''0123456789''"
  unfolding digit_char_def by (rule nth_mem) simp

lemma str_nat_digits: "set (str_nat n) \<subseteq> set ''0123456789''"
proof (induction n rule: str_nat.induct)
  case (1 n)
  show ?case
  proof (cases "n < 10")
    case True
    then show ?thesis using digit_char_in [of n] by (subst str_nat.simps) simp
  next
    case False
    have "n mod 10 < 10" by simp
    then have "digit_char (n mod 10) \<in> set ''0123456789''" by (rule digit_char_in)
    with False 1 show ?thesis by (subst str_nat.simps) simp
  qed
qed

lemma str_nat_nonempty: "str_nat n \<noteq> []"
  by (subst str_nat.simps) simp

lemma parse_digits_snoc:
  "d < 10 \<Longrightarrow> parse_digits acc (xs @ [digit_char d]) =
     map_option (\<lambda>a. 10 * a + d) (parse_digits acc xs)"
  by (induction xs arbitrary: acc) (simp_all add: digit_of_digit_char split: option.splits)

lemma parse_str_nat: "parse_digits 0 (str_nat n) = Some n"
proof (induction n rule: str_nat.induct)
  case (1 n)
  show ?case
  proof (cases "n < 10")
    case True
    then show ?thesis by (subst str_nat.simps) (simp add: digit_of_digit_char)
  next
    case False
    have "parse_digits 0 (str_nat (n div 10) @ [digit_char (n mod 10)]) =
            map_option (\<lambda>a. 10 * a + n mod 10) (parse_digits 0 (str_nat (n div 10)))"
      by (rule parse_digits_snoc) simp
    with False 1 show ?thesis by (subst str_nat.simps) simp
  qed
qed

lemma py_str_chars: "c \<in> set (py_str i) \<Longrightarrow> c \<in> set ''-0123456789''"
proof -
  assume "c \<in> set (py_str i)"
  then consider "c = CHR ''-''" | n where "c \<in> set (str_nat n)"
    by (auto simp: py_str_def split: if_splits)
  then show ?thesis
  proof cases
    case 1
    then show ?thesis by simp
  next
    case 2
    then have "c \<in> set ''0123456789''" using str_nat_digits [of n] by (rule rev_subsetD)
    then show ?thesis by simp
  qed
qed

lemma py_str_nonempty: "py_str i \<noteq> []"
  by (simp add: py_str_def str_nat_nonempty)

lemma strip_id:
  assumes "s \<noteq> []" "\<not> is_space (hd s)" "\<not> is_space (last s)"
  shows "py_strip s = s"
proof -
  from assms have a: "dropWhile is_space s = s" by (cases s) simp_all
  from assms have "rev s \<noteq> []" "\<not> is_space (hd (rev s))" by (simp_all add: hd_rev)
  then have "dropWhile is_space (rev s) = rev s" by (cases "rev s") simp_all
  with a show ?thesis by (simp add: py_strip_def)
qed

lemma not_space_digit: "c \<in> set ''-0123456789'' \<Longrightarrow> \<not> is_space c"
  by (auto simp: is_space_def)

lemma py_strip_py_str: "py_strip (py_str i) = py_str i"
proof (rule strip_id)
  show ne: "py_str i \<noteq> []" by (rule py_str_nonempty)
  from ne have h: "hd (py_str i) \<in> set (py_str i)" and l: "last (py_str i) \<in> set (py_str i)"
    by simp_all
  have "hd (py_str i) \<in> set ''-0123456789''" "last (py_str i) \<in> set ''-0123456789''"
    using h l by (simp_all only: py_str_chars)
  then show "\<not> is_space (hd (py_str i))" "\<not> is_space (last (py_str i))"
    by (simp_all add: not_space_digit)
qed

lemma py_int_py_str: "py_int (py_str i) = Inr i"
proof (cases "i < 0")
  case True
  then show ?thesis
    unfolding py_int_def py_strip_py_str
    by (simp add: py_str_def str_nat_nonempty parse_str_nat)
next
  case False
  obtain c cs where cs: "str_nat (nat i) = c # cs" using str_nat_nonempty by (cases "str_nat (nat i)") auto
  have "c \<in> set (str_nat (nat i))" using cs by simp
  then have "c \<in> set ''0123456789''" using str_nat_digits [of "nat i"] by (rule rev_subsetD)
  then have "c \<noteq> CHR ''-''" "c \<noteq> CHR ''+''" by auto
  moreover have "parse_digits 0 (c # cs) = Some (nat i)" using parse_str_nat [of "nat i"] cs by simp
  ultimately show ?thesis
    unfolding py_int_def py_strip_py_str using False cs
    by (simp add: py_str_def)
qed

lemma py_str_inj: "py_str i = py_str j \<Longrightarrow> i = j"
proof -
  assume "py_str i = py_str j"
  then have "py_int (py_str i) = py_int (py_str j)" by simp
  then show ?thesis by (simp add: py_int_py_str)
qed

lemma int_all_py_str: "int_all (map py_str ds) = Inr ds"
  by (induction ds) (simp_all add: py_int_py_str)


section \<open>Verification: layer labels\<close>

lemma split_on_nonempty: "split_on c s \<noteq> []"
  by (induction s) simp_all

lemma split_on_none: "c \<notin> set s \<Longrightarrow> split_on c s = [s]"
  by (induction s) auto

lemma split_on_first: "c \<notin> set a \<Longrightarrow> split_on c (a @ c # r) = a # split_on c r"
  by (induction a) auto

lemma append_sep_first:
  "c \<notin> set a \<Longrightarrow> c \<notin> set a' \<Longrightarrow> a @ c # r = a' @ c # r' \<Longrightarrow> a = a' \<and> r = r'"
proof (induction a arbitrary: a')
  case Nil
  then show ?case by (cases a') auto
next
  case (Cons x a)
  then show ?case by (cases a') auto
qed

lemma append_sep_last:
  assumes "c \<notin> set s" "c \<notin> set s'" "k @ c # s = k' @ c # s'"
  shows "k = k' \<and> s = s'"
proof -
  from assms(3) have "rev (k @ c # s) = rev (k' @ c # s')" by simp
  then have "rev s @ c # rev k = rev s' @ c # rev k'" by simp
  moreover have "c \<notin> set (rev s)" "c \<notin> set (rev s')" using assms by simp_all
  ultimately have "rev s = rev s' \<and> rev k = rev k'" by (rule append_sep_first [rotated 2])
  then show ?thesis by simp
qed

lemma digit_char_inj: "a < 10 \<Longrightarrow> b < 10 \<Longrightarrow> digit_char a = digit_char b \<Longrightarrow> a = b"
proof -
  assume "a < 10" "b < 10" "digit_char a = digit_char b"
  then have "Some a = Some b" by (metis digit_of_digit_char)
  then show ?thesis by simp
qed

lemma two_digits_inj:
  assumes "n < 100" "m < 100" "two_digits n = two_digits m"
  shows "n = m"
proof -
  have "n div 10 < 10" "m div 10 < 10" "n mod 10 < 10" "m mod 10 < 10" using assms by simp_all
  moreover from assms(3) have "digit_char (n div 10) = digit_char (m div 10)"
    "digit_char (n mod 10) = digit_char (m mod 10)" by (simp_all add: two_digits_def)
  ultimately have d: "n div 10 = m div 10" and r: "n mod 10 = m mod 10"
    by (blast intro: digit_char_inj)+
  have "n = 10 * (n div 10) + n mod 10" by (rule mult_div_mod_eq [symmetric])
  also have "\<dots> = 10 * (m div 10) + m mod 10" by (simp only: d r)
  also have "\<dots> = m" by (rule mult_div_mod_eq)
  finally show ?thesis .
qed

lemma num_str_two_digits: "n < 100 \<Longrightarrow> num_str n = two_digits n"
proof -
  assume n: "n < 100"
  show ?thesis
  proof (cases "n > 9")
    case True
    with n have "n div 10 < 10" "\<not> n < 10" by simp_all
    then have "str_nat n = [digit_char (n div 10)] @ [digit_char (n mod 10)]"
      by (subst str_nat.simps, simp, subst str_nat.simps, simp)
    with True show ?thesis by (simp add: num_str_def two_digits_def)
  next
    case False
    then have "n < 10" by simp
    then have "str_nat n = [digit_char n]" by (subst str_nat.simps) simp
    with False \<open>n < 10\<close> show ?thesis by (simp add: num_str_def two_digits_def digit_char_def)
  qed
qed

lemma py_str_no_x: "CHR ''x'' \<notin> set (py_str i)"
proof
  assume "CHR ''x'' \<in> set (py_str i)"
  then have "CHR ''x'' \<in> set ''-0123456789''" by (rule py_str_chars)
  then show False by simp
qed

lemma py_str_no_us: "CHR ''_'' \<notin> set (py_str i)"
proof
  assume "CHR ''_'' \<in> set (py_str i)"
  then have "CHR ''_'' \<in> set ''-0123456789''" by (rule py_str_chars)
  then show False by simp
qed

lemma two_digits_no_us: "n < 100 \<Longrightarrow> CHR ''_'' \<notin> set (two_digits n)"
proof -
  assume "n < 100"
  then have "n div 10 < 10" "n mod 10 < 10" by simp_all
  then have "digit_char (n div 10) \<in> set ''0123456789''" "digit_char (n mod 10) \<in> set ''0123456789''"
    by (simp_all only: digit_char_in)
  then show ?thesis by (auto simp: two_digits_def)
qed

lemma shape_string_2: "length os = 2 \<Longrightarrow> \<exists>a. tl os = [a] \<and> shape_string os = Inr (''_'' @ py_str a)"
  by (cases os; cases "tl os") (auto simp: shape_string_def)

lemma shape_string_4:
  "length os = 4 \<Longrightarrow> \<exists>a b c. tl os = [a, b, c] \<and>
      shape_string os = Inr (''_'' @ py_str a @ ''x'' @ py_str b @ ''x'' @ py_str c)"
proof -
  assume "length os = 4"
  then obtain z a b c where "os = [z, a, b, c]"
    by (auto simp: eval_nat_numeral length_Suc_conv)
  then show ?thesis by (simp add: shape_string_def)
qed

lemma shape_string_spec:
  "length os = 2 \<or> length os = 4 \<Longrightarrow> shape_string os = Inr (''_'' @ join_x (map py_str (tl os)))"
  using shape_string_2 [of os] shape_string_4 [of os] by auto

lemma make_label_spec:
  "n < 100 \<Longrightarrow> length os = 2 \<or> length os = 4 \<Longrightarrow>
     make_label n kind os = Inr (spec_label n kind (tl os))"
  by (simp add: make_label_def shape_string_spec num_str_two_digits spec_label_def)

lemma join_x_no_us: "CHR ''_'' \<notin> set (join_x (map py_str ds))"
  by (induction ds rule: induct_list012) (simp_all add: py_str_no_us)

lemma split_join_x: "ds \<noteq> [] \<Longrightarrow> split_on CHR ''x'' (join_x (map py_str ds)) = map py_str ds"
proof (induction ds rule: induct_list012)
  case 1
  then show ?case by simp
next
  case (2 d)
  then show ?case by (simp add: split_on_none py_str_no_x)
next
  case (3 d e es)
  have "split_on CHR ''x'' (py_str d @ CHR ''x'' # join_x (map py_str (e # es))) =
          py_str d # split_on CHR ''x'' (join_x (map py_str (e # es)))"
    by (rule split_on_first) (rule py_str_no_x)
  with 3 show ?case by simp
qed

lemma join_x_inj:
  "join_x (map py_str ds) = join_x (map py_str es) \<Longrightarrow> ds \<noteq> [] \<Longrightarrow> es \<noteq> [] \<Longrightarrow> ds = es"
proof -
  assume a: "join_x (map py_str ds) = join_x (map py_str es)" and "ds \<noteq> []" "es \<noteq> []"
  then have "split_on CHR ''x'' (join_x (map py_str ds)) = split_on CHR ''x'' (join_x (map py_str es))"
    by simp
  with \<open>ds \<noteq> []\<close> \<open>es \<noteq> []\<close> have "map py_str ds = map py_str es"
    by (simp add: split_join_x)
  then have "int_all (map py_str ds) = int_all (map py_str es)" by simp
  then show ?thesis by (simp add: int_all_py_str)
qed

lemma spec_label_inj:
  assumes "n < 100" "m < 100" "ds \<noteq> []" "es \<noteq> []" "spec_label n k ds = spec_label m k' es"
  shows "n = m \<and> k = k' \<and> ds = es"
proof -
  from assms(5) have td: "two_digits n = two_digits m"
    and rest: "k @ CHR ''_'' # join_x (map py_str ds) = k' @ CHR ''_'' # join_x (map py_str es)"
    by (simp_all add: spec_label_def two_digits_def)
  from td assms have "n = m" by (simp add: two_digits_inj)
  moreover from rest have "k = k' \<and> join_x (map py_str ds) = join_x (map py_str es)"
    by (rule append_sep_last [rotated 2]) (rule join_x_no_us)+
  ultimately show ?thesis using assms by (simp add: join_x_inj)
qed

lemma get_shape_spec_label:
  assumes "n < 100" "CHR ''_'' \<notin> set kind" "ds \<noteq> []"
  shows "get_shape_from_label (spec_label n kind ds) = Inr ds"
proof -
  have "CHR ''_'' \<notin> set (two_digits n @ kind)" using assms two_digits_no_us by simp
  then have "split_on CHR ''_'' ((two_digits n @ kind) @ CHR ''_'' # join_x (map py_str ds)) =
          (two_digits n @ kind) # split_on CHR ''_'' (join_x (map py_str ds))"
    by (rule split_on_first)
  also have "split_on CHR ''_'' (join_x (map py_str ds)) = [join_x (map py_str ds)]"
    by (rule split_on_none) (rule join_x_no_us)
  finally have "split_on CHR ''_'' (spec_label n kind ds) = [two_digits n @ kind, join_x (map py_str ds)]"
    by (simp add: spec_label_def)
  then show ?thesis using assms by (simp add: get_shape_from_label_def split_join_x int_all_py_str)
qed

text \<open>
  Claim C5. For a layer index below 100 and an output shape of length 2 or 4, the label
  the extractor generates is the two-digit zero-padded index, the kind name, an underscore
  and the non-batch dimensions joined by \<open>x\<close>; the label determines the index, the kind
  and the non-batch shape (injectivity); and \<open>get_shape_from_label\<close> returns the non-batch
  shape from it. The last part is for kind names without an underscore, as every
  canonical kind name is: \<open>get_shape_from_label\<close> reads what stands between the first
  and the second underscore of the label.
\<close>

theorem label_format_injective_roundtrip:
  assumes "layer_num < 100" and "length output_shape = 2 \<or> length output_shape = 4"
  shows "make_label layer_num kind output_shape =
           Inr (spec_label layer_num kind (tl output_shape))
       \<and> (\<forall>n' kind' shape'.
             n' < 100 \<and> (length shape' = 2 \<or> length shape' = 4)
             \<and> make_label n' kind' shape' = make_label layer_num kind output_shape
             \<longrightarrow> n' = layer_num \<and> kind' = kind \<and> tl shape' = tl output_shape)
       \<and> (CHR ''_'' \<notin> set kind \<longrightarrow>
             bind_err (make_label layer_num kind output_shape) get_shape_from_label =
               Inr (tl output_shape))"
proof (intro conjI allI impI)
  show lab: "make_label layer_num kind output_shape = Inr (spec_label layer_num kind (tl output_shape))"
    using assms by (rule make_label_spec)
  from assms(2) have ne: "tl output_shape \<noteq> []" by (cases output_shape) auto
  {
    fix n' kind' shape'
    assume h: "n' < 100 \<and> (length shape' = 2 \<or> length shape' = 4)
             \<and> make_label n' kind' shape' = make_label layer_num kind output_shape"
    then have a: "n' < 100" and b: "length shape' = 2 \<or> length shape' = 4"
      and c: "make_label n' kind' shape' = make_label layer_num kind output_shape" by simp_all
    from a b have "make_label n' kind' shape' = Inr (spec_label n' kind' (tl shape'))"
      by (rule make_label_spec)
    with c lab have eq: "spec_label n' kind' (tl shape') = spec_label layer_num kind (tl output_shape)"
      by simp
    from b have ne': "tl shape' \<noteq> []" by (cases shape') auto
    from spec_label_inj [OF a assms(1) ne' ne eq]
    show "n' = layer_num" "kind' = kind" "tl shape' = tl output_shape" by simp_all
  }
  assume "CHR ''_'' \<notin> set kind"
  with assms(1) ne show "bind_err (make_label layer_num kind output_shape) get_shape_from_label =
               Inr (tl output_shape)"
    by (simp add: lab bind_err_def get_shape_spec_label)
qed

text \<open>The example of the specification: index 2, kind \<open>Conv2D\<close>, shape 16 x 32 x 32.\<close>

theorem label_format_injective_roundtrip_witness:
  "(2::nat) < 100 \<and> length [1, 16, 32, 32 :: int] = 4 \<and> CHR ''_'' \<notin> set ''Conv2D''
   \<and> make_label 2 ''Conv2D'' [1, 16, 32, 32] = Inr ''02Conv2D_16x32x32''
   \<and> get_shape_from_label ''02Conv2D_16x32x32'' = Inr [16, 32, 32]"
proof -
  have h: "(2::nat) < 100" "length [1, 16, 32, 32 :: int] = 2 \<or> length [1, 16, 32, 32 :: int] = 4"
    by simp_all
  note t = label_format_injective_roundtrip [OF h, of "''Conv2D''"]
  have a: "make_label 2 ''Conv2D'' [1, 16, 32, 32] = Inr ''02Conv2D_16x32x32''"
    using t [THEN conjunct1]
    by (simp add: spec_label_def two_digits_def digit_char_def py_str_def str_nat.simps)
  have "bind_err (make_label 2 ''Conv2D'' [1, 16, 32, 32]) get_shape_from_label =
      Inr [16, 32, 32]" using t [THEN conjunct2, THEN conjunct2] by simp
  then have b: "get_shape_from_label ''02Conv2D_16x32x32'' = Inr [16, 32, 32]"
    by (simp add: a bind_err_def)
  from a b show ?thesis by simp
qed


section \<open>Verification: dense connections\<close>

lemma concat_rows_length:
  "length (concat (map (\<lambda>i. map (g i) [0..<m]) [0..<n])) = n * m"
  by (induction n) simp_all

lemma concat_rows_nth:
  "i < n \<Longrightarrow> j < m \<Longrightarrow> concat (map (\<lambda>i. map (g i) [0..<m]) [0..<n]) ! (i * m + j) = g i j"
proof (induction n)
  case 0
  then show ?case by simp
next
  case (Suc n)
  let ?pre = "concat (map (\<lambda>i. map (g i) [0..<m]) [0..<n])"
  have len: "length ?pre = n * m" by (rule concat_rows_length)
  show ?case
  proof (cases "i < n")
    case True
    then have "Suc i \<le> n" by simp
    then have "Suc i * m \<le> n * m" by (rule mult_le_mono1)
    with Suc.prems(2) have "i * m + j < n * m" by simp
    with len Suc.IH [OF True Suc.prems(2)] show ?thesis by (simp add: nth_append)
  next
    case False
    with Suc.prems(1) have "i = n" by simp
    with len Suc.prems(2) show ?thesis by (simp add: nth_append)
  qed
qed

lemma dense_row_delay: "c \<in> set (dense_row weights delay src i) \<Longrightarrow> snd (snd (snd c)) = delay"
  by (auto simp: dense_row_def)

lemma set_biases_frame:
  "set_biases s biases = Inr s' \<Longrightarrow>
     flatten_shapes s' = flatten_shapes s \<and> config s' = config s \<and> data_format s' = data_format s
     \<and> connections s' = connections s \<and> length (layers s') = length (layers s)
     \<and> output_script_path s' = output_script_path s \<and> change_padding s' = change_padding s"
  by (auto simp: set_biases_def bind_err_def py_last_def split: if_splits sum.splits)

text \<open>
  Claim C4. With no flatten record pending, the connection list that \<open>build_dense\<close>
  constructs has one entry per entry of the weight matrix, \<open>rows * cols\<close> in all; the
  entry for source \<open>i\<close> and target \<open>j\<close> (at position \<open>i * cols + j\<close>) carries
  \<open>weights[i, j]\<close>; every entry carries the configured delay; and when the configuration
  asks for simulation, this list is the one of the projection that \<open>build_dense\<close>
  appends.
\<close>

theorem dense_plain_cross_product:
  assumes "flatten_shapes s = []" and "get_weights layer = Some (weights, biases)"
  shows "\<exists>conns. dense_connections (flatten_shapes s) (data_format s) weights (cell_delay (config s))
                   = Inr (conns, [])
           \<and> length conns = shape0 weights * shape1 weights
           \<and> (\<forall>i < shape0 weights. \<forall>j < shape1 weights.
                 conns ! (i * shape1 weights + j)
                   = (int i, int j, entry weights i j, cell_delay (config s)))
           \<and> (\<forall>c \<in> set conns. snd (snd (snd c)) = cell_delay (config s))
           \<and> (\<forall>s' fs fs'. simulate (config s) \<and> build_dense s layer fs = Inr (s', fs')
                 \<longrightarrow> connections s' \<noteq> [] \<and> butlast (connections s') = connections s
                     \<and> proj_entries (last (connections s')) = conns)"
proof -
  let ?d = "cell_delay (config s)"
  let ?conns = "concat (map (\<lambda>i. map (\<lambda>j. (int i, int j, entry weights i j, ?d)) [0..<shape1 weights])
                  [0..<shape0 weights])"
  have dc: "dense_connections [] fmt weights d =
      Inr (concat (map (\<lambda>i. map (\<lambda>j. (int i, int j, entry weights i j, d)) [0..<shape1 weights])
                  [0..<shape0 weights]), [])" for fmt d
    by (simp add: dense_connections_def dense_row_def)
  have a: "dense_connections (flatten_shapes s) (data_format s) weights ?d = Inr (?conns, [])"
    by (simp only: assms(1) dc)
  have b: "length ?conns = shape0 weights * shape1 weights" by (rule concat_rows_length)
  have c: "\<forall>i < shape0 weights. \<forall>j < shape1 weights.
      ?conns ! (i * shape1 weights + j) = (int i, int j, entry weights i j, ?d)"
    by (intro allI impI) (rule concat_rows_nth)
  have d: "\<forall>c \<in> set ?conns. snd (snd (snd c)) = ?d" by auto
  have e: "connections s' \<noteq> [] \<and> butlast (connections s') = connections s
         \<and> proj_entries (last (connections s')) = ?conns"
    if sim: "simulate (config s)" and bd: "build_dense s layer fs = Inr (s', fs')" for s' fs fs'
  proof -
    from bd assms(2) obtain s1 where s1: "set_biases s biases = Inr s1"
      by (auto simp: build_dense_def bind_err_def split: sum.splits)
    note fr = set_biases_frame [OF s1]
    from fr assms(1) have dc1: "dense_connections (flatten_shapes s1) (data_format s1) weights
        (cell_delay (config s1)) = Inr (?conns, [])" by (simp add: dc)
    from bd assms(2) s1 dc1 sim fr
    have "add_projection (s1 \<lparr> flatten_shapes := [] \<rparr>) ?conns = Inr s'"
      by (auto simp: build_dense_def bind_err_def split: sum.splits)
    then show ?thesis using fr
      by (auto simp: add_projection_def Let_def split: if_splits)
  qed
  from a b c d e show ?thesis by blast
qed



text \<open>The four by one weight matrix on the example network.\<close>

theorem dense_plain_cross_product_witness:
  "flatten_shapes example_snn = [] \<and> get_weights example_dense_layer = Some (example_weights, [5])
   \<and> (\<exists>conns. dense_connections (flatten_shapes example_snn) (data_format example_snn)
                  example_weights (cell_delay (config example_snn)) = Inr (conns, [])
          \<and> length conns = 4 \<and> conns ! 2 = (2, 0, 3, 1))"
proof -
  have h1: "flatten_shapes example_snn = []" by (simp add: example_snn_def snn_init_def)
  have h2: "get_weights example_dense_layer = Some (example_weights, [5])"
    by (simp add: example_dense_layer_def)
  from dense_plain_cross_product [OF h1 h2]
  obtain conns where c: "dense_connections (flatten_shapes example_snn) (data_format example_snn)
                  example_weights (cell_delay (config example_snn)) = Inr (conns, [])"
    and l: "length conns = shape0 example_weights * shape1 example_weights"
    and n: "\<forall>i < shape0 example_weights. \<forall>j < shape1 example_weights.
                 conns ! (i * shape1 example_weights + j)
                   = (int i, int j, entry example_weights i j, cell_delay (config example_snn))"
    by blast
  from l have l': "length conns = 4" by (simp add: example_weights_def)
  from n have "conns ! (2 * shape1 example_weights + 0)
       = (int 2, int 0, entry example_weights 2 0, cell_delay (config example_snn))"
    by (simp add: example_weights_def)
  then have n': "conns ! 2 = (2, 0, 3, 1)"
    by (simp add: example_weights_def example_snn_def snn_init_def example_config_def)
  from h1 h2 c l' n' show ?thesis by blast
qed

text \<open>
  Claim C3. Under the channels-first layout the source indices that \<open>build_dense\<close>
  emits are not those of the decomposition under the configured layout. With the pending
  shape (channels 2, height 1, width 2) and a weight matrix of four rows, the code emits
  the sources 0, 2, 1, 3 for the input indices 0, 1, 2, 3: lines 223 to 228 always
  decompose the index as if the channel varied fastest, which the comment above them
  says is not the case for channels first. The decomposition under the channels-first
  layout gives 0, 1, 2, 3.
\<close>

theorem flatten_channels_first_remap:
  "dense_connections [(''01Flatten_4'', [2, 1, 2])] ''channels_first'' example_weights 1
     = Inr ([(0, 0, 1, 1), (2, 0, 2, 1), (1, 0, 3, 1), (3, 0, 4, 1)], [])
   \<and> map (spec_source_index ''channels_first'' 1 2 2) [0, 1, 2, 3] = [0, 1, 2, 3]"
  by (simp add: dense_connections_def bind_err_def remap_index_def dense_row_def
      example_weights_def upt_rec spec_source_index_def spec_decompose_def)


section \<open>Verification: biases\<close>

text \<open>
  Claim C9. \<open>set_biases\<close> with an all-zero bias vector returns the state unchanged. With
  a bias vector that has a nonzero entry and one entry per cell of the last population,
  whose cell type has the parameter \<open>i_offset\<close>, it changes nothing but that parameter
  of the last population, which becomes the vector of the entries \<open>b * dt / 100\<close>;
  \<open>get\<close> then returns this vector (one number when all its entries are equal).
\<close>

theorem set_biases_effect:
  "((\<forall>b \<in> set biases. b = 0) \<longrightarrow> set_biases s biases = Inr s)
   \<and> ((\<exists>b \<in> set biases. b \<noteq> 0) \<and> layers s \<noteq> []
        \<and> pop_params (last (layers s)) ''i_offset'' \<noteq> None
        \<and> int (length biases) = pop_size (last (layers s)) \<longrightarrow>
        (\<exists>s'. set_biases s biases = Inr s'
           \<and> s' = s \<lparr> layers := layers s' \<rparr>
           \<and> layers s' \<noteq> [] \<and> butlast (layers s') = butlast (layers s)
           \<and> last (layers s') = (last (layers s))
                \<lparr> pop_params := (pop_params (last (layers s)))
                     (''i_offset'' \<mapsto> Array (map (\<lambda>b. b * dt s / 100) biases)) \<rparr>
           \<and> pop_get (last (layers s')) ''i_offset''
                = Inr (simplify_value (Array (map (\<lambda>b. b * dt s / 100) biases)))))"
proof (intro conjI impI)
  assume "\<forall>b \<in> set biases. b = 0"
  then have "list_all (\<lambda>b. b = 0) biases" by (simp add: list_all_iff)
  then show "set_biases s biases = Inr s" by (simp add: set_biases_def)
next
  assume h: "(\<exists>b \<in> set biases. b \<noteq> 0) \<and> layers s \<noteq> []
        \<and> pop_params (last (layers s)) ''i_offset'' \<noteq> None
        \<and> int (length biases) = pop_size (last (layers s))"
  let ?v = "Array (map (\<lambda>b. b * dt s / 100) biases)"
  let ?p = "(last (layers s)) \<lparr> pop_params := (pop_params (last (layers s)))(''i_offset'' \<mapsto> ?v) \<rparr>"
  let ?s = "s \<lparr> layers := butlast (layers s) @ [?p] \<rparr>"
  from h have "\<not> list_all (\<lambda>b. b = 0) biases" by (auto simp: list_all_iff)
  moreover from h have "value_fits (pop_size (last (layers s))) ?v" by simp
  ultimately have "set_biases s biases = Inr ?s"
    using h by (simp add: set_biases_def bind_err_def py_last_def pop_set_def)
  moreover have "pop_get (last (layers ?s)) ''i_offset'' = Inr (simplify_value ?v)"
    by (simp add: pop_get_def)
  ultimately show "\<exists>s'. set_biases s biases = Inr s'
           \<and> s' = s \<lparr> layers := layers s' \<rparr>
           \<and> layers s' \<noteq> [] \<and> butlast (layers s') = butlast (layers s)
           \<and> last (layers s') = (last (layers s))
                \<lparr> pop_params := (pop_params (last (layers s)))
                     (''i_offset'' \<mapsto> Array (map (\<lambda>b. b * dt s / 100) biases)) \<rparr>
           \<and> pop_get (last (layers s')) ''i_offset''
                = Inr (simplify_value (Array (map (\<lambda>b. b * dt s / 100) biases)))"
    by (intro exI [of _ ?s]) simp
qed

lemma example_snn_last: "layers example_snn \<noteq> [] \<and> last (layers example_snn) = example_conv
    \<and> dt example_snn = 1 / 10"
  by (simp add: example_snn_def snn_init_def)

text \<open>
  On the example network, whose last population has four cells, with time step 0.1:
  the bias 5 becomes 0.005.
\<close>

theorem set_biases_effect_witness:
  "set_biases example_snn [0, 0, 0, 0] = Inr example_snn
   \<and> int (length [0, 5, 0, 0 :: real]) = pop_size (last (layers example_snn))
   \<and> (\<exists>s'. set_biases example_snn [0, 5, 0, 0] = Inr s'
          \<and> pop_get (last (layers s')) ''i_offset'' = Inr (Array [0, 1 / 200, 0, 0]))"
proof -
  have a: "\<forall>b \<in> set [0, 0, 0, 0 :: real]. b = 0" by simp
  have l: "int (length [0, 5, 0, 0 :: real]) = pop_size (last (layers example_snn))"
    by (simp add: example_snn_last example_conv_def)
  have b: "(\<exists>b \<in> set [0, 5, 0, 0 :: real]. b \<noteq> 0) \<and> layers example_snn \<noteq> []
        \<and> pop_params (last (layers example_snn)) ''i_offset'' \<noteq> None
        \<and> int (length [0, 5, 0, 0 :: real]) = pop_size (last (layers example_snn))"
    by (simp add: example_snn_last example_conv_def)
  from set_biases_effect [of "[0, 0, 0, 0]" example_snn, THEN conjunct1] a
  have 1: "set_biases example_snn [0, 0, 0, 0] = Inr example_snn" by blast
  from set_biases_effect [of "[0, 5, 0, 0]" example_snn, THEN conjunct2] b
  obtain s' where "set_biases example_snn [0, 5, 0, 0] = Inr s'"
    and "pop_get (last (layers s')) ''i_offset''
           = Inr (simplify_value (Array (map (\<lambda>b. b * dt example_snn / 100) [0, 5, 0, 0])))"
    by blast
  then have "set_biases example_snn [0, 5, 0, 0] = Inr s'
      \<and> pop_get (last (layers s')) ''i_offset'' = Inr (Array [0, 1 / 200, 0, 0])"
    by (simp add: example_snn_last)
  with 1 l show ?thesis by blast
qed

section \<open>Verification: zero padding\<close>

lemma padding_supported_entry:
  "pad_entry_ok e \<Longrightarrow> (e = PadInt 1 \<or> e = PadTuple [1, 1]) = list_all (\<lambda>n. n = 1) (pad_sides e)"
proof (cases e)
  case (PadInt n)
  then show ?thesis by auto
next
  case (PadTuple ns)
  assume "pad_entry_ok e"
  with PadTuple obtain a b where "ns = [a, b]"
    by (auto simp: eval_nat_numeral length_Suc_conv)
  with PadTuple show ?thesis by auto
qed

lemma padding_supported_single_cell:
  "\<forall>e \<in> set es. pad_entry_ok e \<Longrightarrow> padding_supported (PaddingTuple es) = single_cell_padding es"
  by (induction es) (simp_all add: padding_supported_def single_cell_padding_def padding_supported_entry)

lemma add_projection_frame:
  "add_projection s conns = Inr s' \<Longrightarrow> change_padding s' = change_padding s
     \<and> layers s' = layers s \<and> flatten_shapes s' = flatten_shapes s"
  by (auto simp: add_projection_def Let_def split: if_splits)

lemma set_biases_flag:
  "set_biases s biases = Inr s' \<Longrightarrow> change_padding s' = change_padding s"
  by (auto simp: set_biases_def bind_err_def py_last_def split: if_splits sum.splits)

lemma build_convolution_clears:
  assumes "build_convolution conv_util s conv fs = Inr (s', fs')"
  shows "\<not> change_padding s'"
proof -
  from assms obtain s1 layer1 conns biases s2 s3 where
    a: "(if change_padding s then
                 (if layer_padding conv = PaddingMode ''valid''
                  then Inr (s \<lparr> change_padding := False \<rparr>,
                            conv \<lparr> layer_padding := PaddingMode ''ZeroPadding'' \<rparr>)
                  else Inl NotImplementedError)
               else Inr (s, conv)) = Inr (s1, layer1)"
    and b: "set_biases s1 biases = Inr s2"
    and c: "(if simulate (config s2) then add_projection s2 conns else Inr s2) = Inr s3"
    and d: "s' = s3"
    by (auto simp: build_convolution_def bind_err_def split: sum.splits prod.splits)
  from a have "\<not> change_padding s1" by (auto split: if_splits)
  with b have "\<not> change_padding s2" by (simp add: set_biases_flag)
  with c have "\<not> change_padding s3" by (auto split: if_splits dest: add_projection_frame)
  with d show ?thesis by simp
qed

text \<open>
  Claim C7. \<open>add_layer\<close> on a ZeroPadding layer creates no population: when the padding
  is one cell on every side it returns the state with only the pending-padding flag set,
  and the files untouched; any other padding raises \<open>NotImplementedError\<close>.
  \<open>build_convolution\<close> with the flag pending and border mode \<open>valid\<close> consumes the
  flag: the connection list is computed from the layer with its padding replaced by the
  explicit \<open>ZeroPadding\<close>, the biases are set and the projection is added on the state
  with the flag cleared, and the flag is not pending in the state it returns. With the
  flag pending and any other border mode it raises \<open>NotImplementedError\<close>. The flag is
  never pending after \<open>build_convolution\<close> returns.
\<close>

theorem zero_padding_handling:
  assumes "contains ''ZeroPadding'' (class_name layer)"
    and "layer_padding layer = PaddingTuple es"
    and "\<forall>e \<in> set es. pad_entry_ok e"
  shows "(single_cell_padding es \<longrightarrow>
            add_layer s layer fs = Inr (s \<lparr> change_padding := True \<rparr>, fs))
       \<and> (\<not> single_cell_padding es \<longrightarrow> add_layer s layer fs = Inl NotImplementedError)
       \<and> (change_padding s0 \<and> layer_padding conv = PaddingMode ''valid'' \<longrightarrow>
            build_convolution conv_util s0 conv fs0 =
              bind_err (conv_util (conv \<lparr> layer_padding := PaddingMode ''ZeroPadding'' \<rparr>)
                          (cell_delay (config s0)) (keras_backend (config s0) = ''tensorflow''))
                (\<lambda>(conns, biases).
                   bind_err (set_biases (s0 \<lparr> change_padding := False \<rparr>) biases) (\<lambda>s2.
                   bind_err (if simulate (config s2) then add_projection s2 conns else Inr s2)
                     (\<lambda>s3. Inr (s3, fs_append fs0 (output_script_path s3) [ScriptConvolution])))))
       \<and> (change_padding s0 \<and> layer_padding conv = PaddingMode ''valid'' \<longrightarrow>
            (\<forall>conns biases s2 s3.
               conv_util (conv \<lparr> layer_padding := PaddingMode ''ZeroPadding'' \<rparr>)
                 (cell_delay (config s0)) (keras_backend (config s0) = ''tensorflow'')
                 = Inr (conns, biases)
               \<and> set_biases (s0 \<lparr> change_padding := False \<rparr>) biases = Inr s2
               \<and> (if simulate (config s2) then add_projection s2 conns else Inr s2) = Inr s3
               \<longrightarrow> build_convolution conv_util s0 conv fs0
                     = Inr (s3, fs_append fs0 (output_script_path s3) [ScriptConvolution])
                   \<and> \<not> change_padding s3))
       \<and> (change_padding s0 \<and> layer_padding conv \<noteq> PaddingMode ''valid'' \<longrightarrow>
            build_convolution conv_util s0 conv fs0 = Inl NotImplementedError)
       \<and> (\<forall>s' fs'. build_convolution conv_util s0 conv fs0 = Inr (s', fs') \<longrightarrow>
            \<not> change_padding s')"
proof -
  from assms(3) have eq: "padding_supported (PaddingTuple es) = single_cell_padding es"
    by (rule padding_supported_single_cell)
  have 1: "single_cell_padding es \<longrightarrow>
            add_layer s layer fs = Inr (s \<lparr> change_padding := True \<rparr>, fs)"
    using assms(1,2) eq by (simp add: add_layer_def)
  have 2: "\<not> single_cell_padding es \<longrightarrow> add_layer s layer fs = Inl NotImplementedError"
    using assms(1,2) eq by (simp add: add_layer_def)
  have 3: "change_padding s0 \<and> layer_padding conv = PaddingMode ''valid'' \<longrightarrow>
            build_convolution conv_util s0 conv fs0 =
              bind_err (conv_util (conv \<lparr> layer_padding := PaddingMode ''ZeroPadding'' \<rparr>)
                          (cell_delay (config s0)) (keras_backend (config s0) = ''tensorflow''))
                (\<lambda>(conns, biases).
                   bind_err (set_biases (s0 \<lparr> change_padding := False \<rparr>) biases) (\<lambda>s2.
                   bind_err (if simulate (config s2) then add_projection s2 conns else Inr s2)
                     (\<lambda>s3. Inr (s3, fs_append fs0 (output_script_path s3) [ScriptConvolution]))))"
    by (simp add: build_convolution_def bind_err_def)
  have 5: "\<forall>s' fs'. build_convolution conv_util s0 conv fs0 = Inr (s', fs') \<longrightarrow>
            \<not> change_padding s'"
    by (intro allI impI) (rule build_convolution_clears)
  have 4: "change_padding s0 \<and> layer_padding conv = PaddingMode ''valid'' \<longrightarrow>
            (\<forall>conns biases s2 s3.
               conv_util (conv \<lparr> layer_padding := PaddingMode ''ZeroPadding'' \<rparr>)
                 (cell_delay (config s0)) (keras_backend (config s0) = ''tensorflow'')
                 = Inr (conns, biases)
               \<and> set_biases (s0 \<lparr> change_padding := False \<rparr>) biases = Inr s2
               \<and> (if simulate (config s2) then add_projection s2 conns else Inr s2) = Inr s3
               \<longrightarrow> build_convolution conv_util s0 conv fs0
                     = Inr (s3, fs_append fs0 (output_script_path s3) [ScriptConvolution])
                   \<and> \<not> change_padding s3)"
  proof (intro impI allI)
    fix conns biases s2 s3
    assume f: "change_padding s0 \<and> layer_padding conv = PaddingMode ''valid''"
    assume u: "conv_util (conv \<lparr> layer_padding := PaddingMode ''ZeroPadding'' \<rparr>)
                 (cell_delay (config s0)) (keras_backend (config s0) = ''tensorflow'')
                 = Inr (conns, biases)
               \<and> set_biases (s0 \<lparr> change_padding := False \<rparr>) biases = Inr s2
               \<and> (if simulate (config s2) then add_projection s2 conns else Inr s2) = Inr s3"
    from f 3 u have r: "build_convolution conv_util s0 conv fs0
                     = Inr (s3, fs_append fs0 (output_script_path s3) [ScriptConvolution])"
      by (simp add: bind_err_def)
    with 5 have "\<not> change_padding s3" by blast
    with r show "build_convolution conv_util s0 conv fs0
                     = Inr (s3, fs_append fs0 (output_script_path s3) [ScriptConvolution])
                   \<and> \<not> change_padding s3" by simp
  qed
  have 6: "change_padding s0 \<and> layer_padding conv \<noteq> PaddingMode ''valid'' \<longrightarrow>
            build_convolution conv_util s0 conv fs0 = Inl NotImplementedError"
    by (simp add: build_convolution_def bind_err_def)
  from 1 2 3 4 6 5 show ?thesis by (intro conjI)
qed

text \<open>
  A ZeroPadding2D layer with padding ((1, 1), (1, 1)) on the example network; then a
  convolution with border mode \<open>same\<close>, and one with border mode \<open>valid\<close>, for which
  the connections come from a function that raises unless the layer it is given has the
  padding \<open>ZeroPadding\<close>.
\<close>

theorem zero_padding_handling_witness:
  "contains ''ZeroPadding'' (class_name example_padding_layer)
   \<and> single_cell_padding [PadTuple [1, 1], PadTuple [1, 1]]
   \<and> add_layer example_snn example_padding_layer example_fs
        = Inr (example_snn \<lparr> change_padding := True \<rparr>, example_fs)
   \<and> build_convolution (\<lambda>l d t. Inr ([], [])) (example_snn \<lparr> change_padding := True \<rparr>)
        (example_conv_layer \<lparr> layer_padding := PaddingMode ''same'' \<rparr>) example_fs
        = Inl NotImplementedError
   \<and> build_convolution
        (\<lambda>l d t. if layer_padding l = PaddingMode ''ZeroPadding''
                  then Inr ([(0, 0, 1, 1)], [0, 0, 0, 0]) else Inl ValueError)
        (example_snn \<lparr> change_padding := True \<rparr>) example_conv_layer example_fs
        = Inr (example_snn
                 \<lparr> connections :=
                     [\<lparr> proj_pre = 0, proj_post = 1, proj_entries = [(0, 0, 1, 1)],
                        proj_label = ''InputLayer'' @ arrow @ ''00Conv2D_2x1x2'' \<rparr>],
                   change_padding := False \<rparr>,
               [''/wd/snn.py'' \<mapsto> [ScriptFooter, ScriptConvolution]])"
proof -
  let ?u = "\<lambda>(l :: keras_layer) (d :: real) (t :: bool).
              if layer_padding l = PaddingMode ''ZeroPadding''
              then Inr ([(0, 0, 1, 1)], [0, 0, 0, 0]) else (Inl ValueError :: error + connection list \<times> real list)"
  let ?sp = "example_snn \<lparr> change_padding := True \<rparr>"
  have h1: "contains ''ZeroPadding'' (class_name example_padding_layer)"
    by (simp add: example_padding_layer_def)
  have h2: "layer_padding example_padding_layer = PaddingTuple [PadTuple [1, 1], PadTuple [1, 1]]"
    by (simp add: example_padding_layer_def)
  have h3: "\<forall>e \<in> set [PadTuple [1, 1], PadTuple [1, 1]]. pad_entry_ok e" by simp
  have sc: "single_cell_padding [PadTuple [1, 1], PadTuple [1, 1]]"
    by (simp add: single_cell_padding_def)
  note t = zero_padding_handling [OF h1 h2 h3, where s = example_snn and fs = example_fs
      and ?s0.0 = ?sp and fs0 = example_fs]
  from t [where conv = example_conv_layer and conv_util = ?u] sc
  have a: "add_layer example_snn example_padding_layer example_fs
        = Inr (example_snn \<lparr> change_padding := True \<rparr>, example_fs)" by blast
  have "change_padding ?sp
      \<and> layer_padding (example_conv_layer \<lparr> layer_padding := PaddingMode ''same'' \<rparr>)
           \<noteq> PaddingMode ''valid''" by simp
  with t [where conv = "example_conv_layer \<lparr> layer_padding := PaddingMode ''same'' \<rparr>"
      and conv_util = "\<lambda>l d t. Inr ([], [])"]
  have b: "build_convolution (\<lambda>l d t. Inr ([], [])) ?sp
        (example_conv_layer \<lparr> layer_padding := PaddingMode ''same'' \<rparr>) example_fs
        = Inl NotImplementedError" by blast
  have v: "change_padding ?sp \<and> layer_padding example_conv_layer = PaddingMode ''valid''"
    by (simp add: example_conv_layer_def)
  from t [where conv = example_conv_layer and conv_util = ?u, THEN conjunct2, THEN conjunct2,
      THEN conjunct1] v
  have "build_convolution ?u ?sp example_conv_layer example_fs =
      bind_err (?u (example_conv_layer \<lparr> layer_padding := PaddingMode ''ZeroPadding'' \<rparr>)
                          (cell_delay (config ?sp)) (keras_backend (config ?sp) = ''tensorflow''))
                (\<lambda>(conns, biases).
                   bind_err (set_biases (?sp \<lparr> change_padding := False \<rparr>) biases) (\<lambda>s2.
                   bind_err (if simulate (config s2) then add_projection s2 conns else Inr s2)
                     (\<lambda>s3. Inr (s3, fs_append example_fs (output_script_path s3) [ScriptConvolution]))))"
    by blast
  then have c: "build_convolution ?u ?sp example_conv_layer example_fs
        = Inr (example_snn
                 \<lparr> connections :=
                     [\<lparr> proj_pre = 0, proj_post = 1, proj_entries = [(0, 0, 1, 1)],
                        proj_label = ''InputLayer'' @ arrow @ ''00Conv2D_2x1x2'' \<rparr>],
                   change_padding := False \<rparr>,
               [''/wd/snn.py'' \<mapsto> [ScriptFooter, ScriptConvolution]])"
    by (simp add: bind_err_def set_biases_def add_projection_def example_snn_def snn_init_def
        example_config_def example_input_def example_conv_def fs_append_def example_fs_def
        path_join_def)
  from h1 sc a b c show ?thesis by blast
qed

section \<open>Verification: flatten records\<close>

lemma set_biases_pending:
  "set_biases s biases = Inr s' \<Longrightarrow> flatten_shapes s' = flatten_shapes s"
  by (auto simp: set_biases_def bind_err_def py_last_def split: if_splits sum.splits)

lemma dense_connections_many:
  "length pending > 1 \<Longrightarrow> dense_connections pending fmt weights delay = Inl RuntimeWarning"
  by (simp add: dense_connections_def)

lemma example_label_shape: "get_shape_from_label ''00Conv2D_2x1x2'' = Inr [2, 1, 2]"
  by (simp add: get_shape_from_label_def py_int_def py_strip_def is_space_def digit_of_char_def)

text \<open>
  Claim C8, as stated, fails: after two Flatten layers in a row two records are pending.
\<close>

theorem two_flatten_records_pending:
  "map_sum id (\<lambda>r. length (flatten_shapes (fst r)))
     (add_layers example_snn [example_flatten_layer, example_flatten_layer] example_fs) = Inr 2"
  by (simp add: add_layer_def example_flatten_layer_def bind_err_def py_last_def
      example_snn_def snn_init_def example_conv_def example_label_shape)

text \<open>
  Claim C8, amended. \<open>add_layer\<close> appends a record for every Flatten layer, whatever is
  pending already, so the number of pending records is not bounded while layers are
  added. \<open>build_dense\<close> with more than one record pending fails: the computation of the
  connection list raises \<open>RuntimeWarning\<close> and returns no entry, and \<open>build_dense\<close>
  raises it unless reading the weights or setting the biases has raised before.
\<close>

theorem flatten_records_checked_by_build_dense:
  "(contains ''Flatten'' (class_name layer) \<and> \<not> contains ''ZeroPadding'' (class_name layer)
      \<and> layers s \<noteq> [] \<and> get_shape_from_label (pop_label (last (layers s))) = Inr shape \<longrightarrow>
      add_layer s layer fs =
        Inr (s \<lparr> flatten_shapes := flatten_shapes s @ [(layer_name layer, shape)] \<rparr>, fs))
   \<and> (length (flatten_shapes s) > 1 \<longrightarrow>
        dense_connections (flatten_shapes s) (data_format s) weights delay = Inl RuntimeWarning
        \<and> (\<exists>e. build_dense s dense fs = Inl e)
        \<and> (\<forall>w b s1. get_weights dense = Some (w, b) \<and> set_biases s b = Inr s1 \<longrightarrow>
              build_dense s dense fs = Inl RuntimeWarning))"
proof (intro conjI impI allI)
  assume "contains ''Flatten'' (class_name layer) \<and> \<not> contains ''ZeroPadding'' (class_name layer)
      \<and> layers s \<noteq> [] \<and> get_shape_from_label (pop_label (last (layers s))) = Inr shape"
  then show "add_layer s layer fs =
        Inr (s \<lparr> flatten_shapes := flatten_shapes s @ [(layer_name layer, shape)] \<rparr>, fs)"
    by (simp add: add_layer_def bind_err_def py_last_def)
next
  assume m: "length (flatten_shapes s) > 1"
  then show "dense_connections (flatten_shapes s) (data_format s) weights delay = Inl RuntimeWarning"
    by (rule dense_connections_many)
  have rw: "build_dense s dense fs = Inl RuntimeWarning"
    if "get_weights dense = Some (w, b) \<and> set_biases s b = Inr s1" for w b s1
  proof -
    from that have "set_biases s b = Inr s1" by simp
    then have "flatten_shapes s1 = flatten_shapes s" by (rule set_biases_pending)
    with m have "dense_connections (flatten_shapes s1) (data_format s1) w (cell_delay (config s1))
        = Inl RuntimeWarning" by (simp add: dense_connections_many)
    with that show ?thesis by (simp add: build_dense_def bind_err_def)
  qed
  show "\<exists>e. build_dense s dense fs = Inl e"
  proof (cases "get_weights dense")
    case None
    then show ?thesis by (simp add: build_dense_def)
  next
    case (Some wb)
    obtain w b where wb: "wb = (w, b)" by (cases wb)
    show ?thesis
    proof (cases "set_biases s b")
      case (Inl e)
      with Some wb show ?thesis by (simp add: build_dense_def bind_err_def)
    next
      case (Inr s1)
      with Some wb rw show ?thesis by blast
    qed
  qed
  fix w b s1
  assume "get_weights dense = Some (w, b) \<and> set_biases s b = Inr s1"
  then show "build_dense s dense fs = Inl RuntimeWarning" by (rule rw)
qed

text \<open>
  One Flatten layer on the example network; and a dense layer of one cell, added after
  two Flatten layers, with two records pending.
\<close>

theorem flatten_records_checked_by_build_dense_witness:
  "add_layer example_snn example_flatten_layer example_fs =
     Inr (example_snn \<lparr> flatten_shapes := [(''01Flatten_4'', [2, 1, 2])] \<rparr>, example_fs)
   \<and> build_dense
        (example_snn \<lparr> layers := [example_input, example_conv, example_dense],
                       flatten_shapes := [(''01Flatten_4'', [2, 1, 2]),
                                          (''01Flatten_4'', [2, 1, 2])] \<rparr>)
        example_dense_layer example_fs = Inl RuntimeWarning"
proof -
  let ?s2 = "example_snn \<lparr> layers := [example_input, example_conv, example_dense],
                          flatten_shapes := [(''01Flatten_4'', [2, 1, 2]),
                                             (''01Flatten_4'', [2, 1, 2])] \<rparr>"
  have h: "contains ''Flatten'' (class_name example_flatten_layer)
      \<and> \<not> contains ''ZeroPadding'' (class_name example_flatten_layer)
      \<and> layers example_snn \<noteq> []
      \<and> get_shape_from_label (pop_label (last (layers example_snn))) = Inr [2, 1, 2]"
    by (simp add: example_flatten_layer_def example_snn_def snn_init_def example_conv_def
        example_label_shape)
  from flatten_records_checked_by_build_dense
    [where layer = example_flatten_layer and s = example_snn and shape = "[2, 1, 2]"
       and fs = example_fs, THEN conjunct1] h
  have "add_layer example_snn example_flatten_layer example_fs =
     Inr (example_snn \<lparr> flatten_shapes := flatten_shapes example_snn
            @ [(layer_name example_flatten_layer, [2, 1, 2])] \<rparr>, example_fs)" by blast
  then have a: "add_layer example_snn example_flatten_layer example_fs =
     Inr (example_snn \<lparr> flatten_shapes := [(''01Flatten_4'', [2, 1, 2])] \<rparr>, example_fs)"
    by (simp add: example_snn_def snn_init_def example_flatten_layer_def)
  have m: "length (flatten_shapes ?s2) > 1" by simp
  have g: "get_weights example_dense_layer = Some (example_weights, [5])"
    by (simp add: example_dense_layer_def)
  have sb: "\<exists>s1. set_biases ?s2 [5] = Inr s1"
    by (simp add: set_biases_def bind_err_def py_last_def pop_set_def example_dense_def)
  then obtain s1 where "set_biases ?s2 [5] = Inr s1" by blast
  with g m flatten_records_checked_by_build_dense
    [where s = ?s2 and dense = example_dense_layer and fs = example_fs, THEN conjunct2]
  have b: "build_dense ?s2 example_dense_layer example_fs = Inl RuntimeWarning" by blast
  from a b show ?thesis by blast
qed

section \<open>Verification: loading\<close>

lemma get_snn_from_script_errors:
  "get_snn_from_script imp gm fs p \<noteq> Inl AssertionError"
  by (auto simp: get_snn_from_script_def bind_err_def fs_rename_def Let_def
      split: prod.splits option.splits sum.splits)

text \<open>
  Claim C10. When a file exists at the script path, \<open>load\<close> returns what
  \<open>get_snn_from_script\<close> returns for that file, as the new simulator handle and the new
  layer list; it does not raise \<open>AssertionError\<close>, the error of the two assertions on the
  assembly file and the connection files; and the directory and the file name of the
  assembly, which locate those files, have no influence on the result.
\<close>

theorem load_prefers_script:
  assumes "fs (output_script_path s) \<noteq> None"
  shows "load_snn imp gm s path filename fs =
           bind_err (get_snn_from_script imp gm fs (output_script_path s))
             (\<lambda>((backend, ls), fs'). Inr (s \<lparr> sim := backend, layers := ls \<rparr>, fs'))
       \<and> load_snn imp gm s path filename fs \<noteq> Inl AssertionError
       \<and> (\<forall>path' filename'.
             load_snn imp gm s path' filename' fs = load_snn imp gm s path filename fs)"
proof -
  have a: "load_snn imp gm s p f fs =
           bind_err (get_snn_from_script imp gm fs (output_script_path s))
             (\<lambda>((backend, ls), fs'). Inr (s \<lparr> sim := backend, layers := ls \<rparr>, fs'))" for p f
    using assms by (simp add: load_snn_def)
  have b: "load_snn imp gm s path filename fs \<noteq> Inl AssertionError"
    using get_snn_from_script_errors [of imp gm fs "output_script_path s"]
    by (auto simp: a bind_err_def split: sum.splits prod.splits)
  from a b show ?thesis by simp
qed

text \<open>The example file system holds a script and no assembly file.\<close>

theorem load_prefers_script_witness:
  "example_fs (output_script_path example_snn) \<noteq> None
   \<and> example_fs (path_join ''/wd'' ''assembly'') = None
   \<and> load_snn (\<lambda>fs d n. Some ()) (\<lambda>m fs. Some (example_backend, [example_input]))
        example_snn ''/wd'' ''assembly'' example_fs
      = Inr (example_snn \<lparr> sim := example_backend, layers := [example_input] \<rparr>, example_fs)"
proof -
  have p: "output_script_path example_snn = ''/wd/snn.py''"
    by (simp add: example_snn_def snn_init_def example_config_def path_join_def)
  have h: "example_fs (output_script_path example_snn) \<noteq> None"
    by (simp add: p example_fs_def)
  have n: "example_fs (path_join ''/wd'' ''assembly'') = None"
    by (simp add: example_fs_def path_join_def)
  have g: "get_snn_from_script (\<lambda>fs d n. Some ()) (\<lambda>m fs. Some (example_backend, [example_input]))
      example_fs ''/wd/snn.py'' = Inr ((example_backend, [example_input]), example_fs)"
    by (simp add: get_snn_from_script_def basename_def splitext_def dirname_def)
  from load_prefers_script [where fs = example_fs and s = example_snn
      and imp = "\<lambda>fs d n. Some ()" and gm = "\<lambda>m fs. Some (example_backend, [example_input])"
      and path = "''/wd''" and filename = "''assembly''", THEN conjunct1] h
  have "load_snn (\<lambda>fs d n. Some ()) (\<lambda>m fs. Some (example_backend, [example_input]))
        example_snn ''/wd'' ''assembly'' example_fs
      = Inr (example_snn \<lparr> sim := example_backend, layers := [example_input] \<rparr>, example_fs)"
    by (simp add: p g bind_err_def)
  with h n show ?thesis by blast
qed


section \<open>Verification: the overwrite policy\<close>









section \<open>Verification: batch normalization in the extractor\<close>

lemma affine_weights_bn_raises:
  assumes "net_type nl = ''BatchNormalization''"
  shows "\<exists>e. affine_weights absorb model key (Some nl) = Inl e
            \<and> affine_weights absorb' model key (Some nl) = Inl e"
proof -
  have ix: "py_index [b0, b1] 2 = Inl IndexError" for b0 b1 :: 'a by (simp add: py_index_def)
  have bn: "\<exists>e. bind_err (py_index (net_blobs nl) 0) (\<lambda>b0.
              bind_err (py_index (net_blobs nl) 1) (\<lambda>b1.
                let weights = [b0, b1] in
                bind_err (py_index wb 0) (\<lambda>a0.
                bind_err (py_index wb 1) (\<lambda>a1.
                bind_err (py_index weights 0) (\<lambda>a2.
                bind_err (py_index weights 1) (\<lambda>a3.
                bind_err (py_index weights 2) (\<lambda>a4. g a0 a1 a2 a3 a4 weights))))))) = Inl e
        \<and> bind_err (py_index (net_blobs nl) 0) (\<lambda>b0.
              bind_err (py_index (net_blobs nl) 1) (\<lambda>b1.
                let weights = [b0, b1] in
                bind_err (py_index wb 0) (\<lambda>a0.
                bind_err (py_index wb 1) (\<lambda>a1.
                bind_err (py_index weights 0) (\<lambda>a2.
                bind_err (py_index weights 1) (\<lambda>a3.
                bind_err (py_index weights 2) (\<lambda>a4. g' a0 a1 a2 a3 a4 weights))))))) = Inl e"
    for wb :: "'a list" and g g' :: "'a \<Rightarrow> 'a \<Rightarrow> 'a \<Rightarrow> 'a \<Rightarrow> 'a \<Rightarrow> 'a list \<Rightarrow> error + 'a list"
    by (cases "py_index (net_blobs nl) 0"; cases "py_index (net_blobs nl) 1";
        cases "py_index wb 0"; cases "py_index wb 1")
       (simp_all add: bind_err_def ix, simp_all add: py_index_def)
  show ?thesis
  proof (cases "py_lookup (params model) key")
    case (Inl e)
    then show ?thesis by (simp add: affine_weights_def bind_err_def)
  next
    case (Inr ps)
    show ?thesis
    proof (cases "py_index ps 0")
      case (Inl e)
      with Inr show ?thesis by (simp add: affine_weights_def bind_err_def)
    next
      case w: (Inr w)
      show ?thesis
      proof (cases "py_index ps 1")
        case (Inl e)
        with Inr w show ?thesis by (simp add: affine_weights_def bind_err_def)
      next
        case b: (Inr b)
        from bn [of "[w, b]"
            "\<lambda>a0 a1 a2 a3 a4 weights. bind_err (py_index weights 3) (\<lambda>a5.
                  (case net_epsilon nl of
                     None \<Rightarrow> Inl AttributeError
                   | Some eps \<Rightarrow> Inr (absorb a0 a1 a2 a3 a4 a5 eps)))"
            "\<lambda>a0 a1 a2 a3 a4 weights. bind_err (py_index weights 3) (\<lambda>a5.
                  (case net_epsilon nl of
                     None \<Rightarrow> Inl AttributeError
                   | Some eps \<Rightarrow> Inr (absorb' a0 a1 a2 a3 a4 a5 eps)))"]
        obtain e where "affine_weights absorb model key (Some nl) = Inl e
            \<and> affine_weights absorb' model key (Some nl) = Inl e"
          using Inr w b assms by (auto simp: affine_weights_def bind_err_def Let_def)
        then show ?thesis by blast
      qed
    qed
  qed
qed


lemma layer_weights_bn:
  assumes "net_type nl = ''BatchNormalization''"
  shows "layer_weights absorb model key ltype (Some nl) = layer_weights absorb' model key ltype (Some nl)
       \<and> (\<forall>wb act. layer_weights absorb model key ltype (Some nl) = Inr (wb, act) \<longrightarrow> wb = None)"
proof -
  from affine_weights_bn_raises [OF assms, of absorb model key absorb']
  obtain e where "affine_weights absorb model key (Some nl) = Inl e"
    and "affine_weights absorb' model key (Some nl) = Inl e" by blast
  then show ?thesis by (simp add: layer_weights_def bind_err_def Let_def)
qed

lemma layer_geometry_weights:
  "layer_geometry bms layer ltype ins attrs0 = Inr attrs \<Longrightarrow> attr_weights attrs = attr_weights attrs0"
  by (auto simp: layer_geometry_def bind_err_def Let_def split: if_splits sum.splits)

lemma extract_layer_absorb_cong:
  assumes "\<And>ltype. layer_weights absorb model (proto_name layer) ltype
              (if n + 1 < length (net_layers model) then Some (net_layers model ! (n + 1)) else None)
            = layer_weights absorb' model (proto_name layer) ltype
              (if n + 1 < length (net_layers model) then Some (net_layers model ! (n + 1)) else None)"
  shows "extract_layer bn absorb bms pm model input_dim ls n layer
           = extract_layer bn absorb' bms pm model input_dim ls n layer"
  unfolding extract_layer_def Let_def by (simp only: assms)

lemma extract_layer_never_folds:
  assumes "n + 1 < length (net_layers model)"
    and "net_type (net_layers model ! (n + 1)) = ''BatchNormalization''"
  shows "extract_layer bn absorb bms pm model input_dim ls n layer
           = extract_layer bn absorb' bms pm model input_dim ls n layer
       \<and> (\<forall>attrs. extract_layer bn absorb bms pm model input_dim ls n layer = Inr (Some attrs)
             \<longrightarrow> attr_weights attrs = None)"
proof -
  let ?nl = "net_layers model ! (n + 1)"
  let ?next = "if n + 1 < length (net_layers model) then Some ?nl else None"
  from assms(1) have nx: "?next = Some ?nl" by simp
  note lw = layer_weights_bn [OF assms(2), of absorb model "proto_name layer" _ absorb']
  have eq: "extract_layer bn absorb bms pm model input_dim ls n layer
           = extract_layer bn absorb' bms pm model input_dim ls n layer"
  proof (rule extract_layer_absorb_cong)
    fix ltype
    show "layer_weights absorb model (proto_name layer) ltype ?next
            = layer_weights absorb' model (proto_name layer) ltype ?next"
      unfolding nx by (rule lw [THEN conjunct1])
  qed
  have nw: "attr_weights attrs = None"
    if r: "extract_layer bn absorb bms pm model input_dim ls n layer = Inr (Some attrs)" for attrs
  proof -
    from r obtain ltype where lt: "layer_type_of pm (proto_type layer) = Some ltype"
      by (cases "layer_type_of pm (proto_type layer)") (auto simp: extract_layer_def)
    define oshape where "oshape = (case blobs model (proto_name layer) of
                      None \<Rightarrow> bind_err (py_last ls) (\<lambda>l. Inr (attr_output_shape l))
                    | Some shape \<Rightarrow> Inr shape)"
    from r lt obtain osh where osh: "oshape = Inr osh"
      by (cases oshape) (auto simp: extract_layer_def Let_def bind_err_def oshape_def)
    from r lt osh obtain lab where lab: "make_label n ltype osh = Inr lab"
      by (cases "make_label n ltype osh")
         (auto simp: extract_layer_def Let_def bind_err_def oshape_def)
    from r lt osh lab nx obtain wb act where
      w: "layer_weights absorb model (proto_name layer) ltype (Some ?nl) = Inr (wb, act)"
      by (cases "layer_weights absorb model (proto_name layer) ltype (Some ?nl)")
         (auto simp: extract_layer_def Let_def bind_err_def oshape_def split: if_splits)
    from w lw have wn: "wb = None" by blast
    define ins where "ins = (if n = 0 then Inr input_dim
                         else bind_err (py_last ls) (\<lambda>l. Inr (attr_output_shape l)))"
    define a0 where "a0 = \<lparr> attr_layer_num = n, attr_layer_type = ltype,
                            attr_output_shape = osh, attr_label = lab,
                            attr_activation = act, attr_weights = wb,
                            attr_input_shape = None, attr_nb_filter = None, attr_nb_col = None,
                            attr_nb_row = None, attr_border_mode = None, attr_pool_size = None,
                            attr_strides = None, attr_get_activ = False \<rparr>"
    from r lt osh lab nx w obtain attrs1 where
      g: "layer_geometry bms layer ltype ins a0 = Inr attrs1"
      and at: "attrs = attrs1 \<or> attrs = attrs1 \<lparr> attr_get_activ := True \<rparr>"
      by (cases "layer_geometry bms layer ltype ins a0")
         (auto simp: extract_layer_def Let_def bind_err_def oshape_def ins_def a0_def
            split: if_splits)
    from g have "attr_weights attrs1 = attr_weights a0" by (rule layer_geometry_weights)
    with wn have "attr_weights attrs1 = None" by (simp add: a0_def)
    with at show ?thesis by auto
  qed
  from eq nw show ?thesis by blast
qed


lemma example_next_layer:
  "0 + 1 < length (net_layers example_net)
   \<and> net_layers example_net ! (0 + 1)
       = \<lparr> net_type = ''BatchNormalization'', net_blobs = [1, 0, 0, 1],
           net_epsilon = Some (1 / 1000) \<rparr>"
  by (simp add: example_net_def)

lemma example_inner_product_step:
  "extract_layer bn_layers_spec absorb_bn_spec (\<lambda>pad k. Inr ''valid'') ''MAX'' example_net [1, 4]
     [] 0 (example_proto ''InnerProduct'' ''fc1'') = Inl NotImplementedError"
  by (simp add: extract_layer_def layer_type_of_def standard_name_def example_proto_def
      example_next_layer bind_err_def make_label_def shape_string_def bn_layers_spec_def Let_def)
     (simp add: example_net_def)

lemma example_dense_step:
  "extract_layer bn_layers_spec absorb_bn_spec (\<lambda>pad k. Inr ''valid'') ''MAX'' example_net [1, 4]
     [] 0 (example_proto ''Dense'' ''fc1'') = Inl IndexError"
  by (simp add: extract_layer_def layer_type_of_def standard_name_def example_proto_def
      example_net_def bind_err_def make_label_def shape_string_def bn_layers_spec_def Let_def
      layer_weights_def affine_weights_def py_index_def py_lookup_def)

text \<open>
  Claim C1. An affine layer followed by a batch normalization layer is never given folded
  parameters: \<open>extract\<close> raises. For an \<open>InnerProduct\<close> layer the type name that
  reaches the check of line 159 is the native one (the \<open>if\<close> of line 128 is not an
  \<open>elif\<close>, so its \<open>else\<close> branch undoes the renaming to \<open>Dense\<close>), and
  \<open>NotImplementedError\<close> is raised. For a layer whose native type is \<open>Dense\<close> the
  call of \<open>absorb_bn\<close> reads \<open>weights[2]\<close> of a list built with two entries, and
  \<open>IndexError\<close> is raised. The lemma before (\<open>extract_layer_never_folds\<close>) shows
  that no layer followed by a batch normalization layer gets folded parameters, whatever
  \<open>absorb_bn\<close> and \<open>bn_layers\<close> are.
\<close>

theorem batchnorm_never_folded:
  "extract_model bn_layers_spec absorb_bn_spec (\<lambda>pad k. Inr ''valid'') ''MAX'' example_net [1, 4]
     [example_proto ''InnerProduct'' ''fc1'', example_proto ''BatchNormalization'' ''bn1'']
     = Inl NotImplementedError
   \<and> extract_model bn_layers_spec absorb_bn_spec (\<lambda>pad k. Inr ''valid'') ''MAX'' example_net [1, 4]
     [example_proto ''Dense'' ''fc1'', example_proto ''BatchNormalization'' ''bn1'']
     = Inl IndexError"
  by (simp add: extract_model_def example_inner_product_step example_dense_step bind_err_def)


section \<open>Verification: saving and loading the assembly\<close>
















end
